theory Spec2Isabelle
  imports Main "HOL-Library.Product_Lexorder"
begin

section \<open>Video converter: the conversion orchestration engine of VC135.py\<close>

text \<open>
  The development embeds the scan, dispatch, execute and dispose pipeline of
  \<^verbatim>\<open>VideoConverterApp\<close> (file \<^verbatim>\<open>src/VC135.py\<close>). Everything the Python code
  obtains from its surroundings (the clock, the exit status of \<^verbatim>\<open>ffprobe\<close> and
  \<^verbatim>\<open>ffmpeg\<close>, whether a rename or a removal succeeds) is an explicit argument of the
  model, so that each function below is a total, executable HOL function.
  Strings are ASCII character lists.
\<close>

subsection \<open>Strings\<close>

definition is_digit :: "char \<Rightarrow> bool" where
  "is_digit c = (c \<in> set ''0123456789'')"

definition digit_val :: "char \<Rightarrow> nat" where
  "digit_val c = of_char c - 48"

text \<open>\<^verbatim>\<open>str.lower\<close> on ASCII text: only the letters A to Z change.\<close>

definition char_lower :: "char \<Rightarrow> char" where
  "char_lower c =
     (case map_of (zip ''ABCDEFGHIJKLMNOPQRSTUVWXYZ'' ''abcdefghijklmnopqrstuvwxyz'') c of
        None \<Rightarrow> c
      | Some l \<Rightarrow> l)"

definition lower :: "string \<Rightarrow> string" where
  "lower s = map char_lower s"

text \<open>\<^verbatim>\<open>s.startswith(p)\<close>, \<^verbatim>\<open>s.endswith(p)\<close>, and \<^verbatim>\<open>p in s\<close> for strings.\<close>

fun startswith :: "string \<Rightarrow> string \<Rightarrow> bool" where
  "startswith s [] = True"
| "startswith [] (p # ps) = False"
| "startswith (c # cs) (p # ps) = (c = p \<and> startswith cs ps)"

definition endswith :: "string \<Rightarrow> string \<Rightarrow> bool" where
  "endswith s p = startswith (rev s) (rev p)"

fun contains :: "string \<Rightarrow> string \<Rightarrow> bool" where
  "contains [] p = (p = [])"
| "contains (c # cs) p = (startswith (c # cs) p \<or> contains cs p)"

text \<open>\<^verbatim>\<open>s.endswith(t)\<close> for a tuple \<open>t\<close> of suffixes.\<close>

definition endswith_any :: "string \<Rightarrow> string list \<Rightarrow> bool" where
  "endswith_any s ps = list_ex (endswith s) ps"

subsection \<open>The time-window gate\<close>

text \<open>
  A \<^verbatim>\<open>datetime.time\<close> is its tuple (hour, minute, second, microsecond); Python
  compares two naive times as these tuples, lexicographically.
\<close>

type_synonym time = "nat \<times> nat \<times> nat \<times> nat"

datatype error = ValueError | FileNotFoundError | OSError

text \<open>
  \<^verbatim>\<open>datetime.strptime(s, "%H:%M").time()\<close>. The format compiles to the regular
  expression \<^verbatim>\<open>(2[0-3]|[0-1]\d|\d):([0-5]\d|\d)\<close>, matched at the start of the
  string with ordered alternatives; text left over after the match is a
  \<^verbatim>\<open>ValueError\<close>, as is no match. \<open>match_H\<close> is the hour group followed by the colon,
  \<open>match_M\<close> the minute group; each returns the value and the rest of the string.
\<close>

fun match_H :: "string \<Rightarrow> (nat \<times> string) option" where
  "match_H (a # b # c # r) =
     (if a = CHR ''2'' \<and> b \<in> set ''0123'' \<and> c = CHR '':'' then Some (20 + digit_val b, r)
      else if a \<in> set ''01'' \<and> is_digit b \<and> c = CHR '':''
        then Some (10 * digit_val a + digit_val b, r)
      else if is_digit a \<and> b = CHR '':'' then Some (digit_val a, c # r)
      else None)"
| "match_H [a, b] = (if is_digit a \<and> b = CHR '':'' then Some (digit_val a, []) else None)"
| "match_H _ = None"

fun match_M :: "string \<Rightarrow> (nat \<times> string) option" where
  "match_M (a # b # r) =
     (if a \<in> set ''012345'' \<and> is_digit b then Some (10 * digit_val a + digit_val b, r)
      else if is_digit a then Some (digit_val a, b # r)
      else None)"
| "match_M [a] = (if is_digit a then Some (digit_val a, []) else None)"
| "match_M [] = None"

definition strptime_HM :: "string \<Rightarrow> time option" where
  "strptime_HM s =
     (case match_H s of
        None \<Rightarrow> None
      | Some (h, r) \<Rightarrow>
          (case match_M r of
             None \<Rightarrow> None
           | Some (m, r') \<Rightarrow> if r' = [] then Some (h, m, 0, 0) else None))"

text \<open>
  \<^verbatim>\<open>VideoConverterApp.is_within_allowed_hours\<close>. The arguments are the fields
  \<^verbatim>\<open>no_time_restrictions\<close>, \<^verbatim>\<open>start_time\<close> and \<^verbatim>\<open>end_time\<close> of the application and
  the value of \<^verbatim>\<open>datetime.now().time()\<close>. A start or end text that \<^verbatim>\<open>strptime\<close>
  rejects raises \<^verbatim>\<open>ValueError\<close>; the start text is parsed first.
\<close>

definition is_within_allowed_hours :: "bool \<Rightarrow> string \<Rightarrow> string \<Rightarrow> time \<Rightarrow> error + bool" where
  "is_within_allowed_hours no_time_restrictions start_time_str end_time_str current_time =
     (if no_time_restrictions then Inr True
      else
        (case strptime_HM start_time_str of
           None \<Rightarrow> Inl ValueError
         | Some start_time \<Rightarrow>
             (case strptime_HM end_time_str of
                None \<Rightarrow> Inl ValueError
              | Some end_time \<Rightarrow>
                  if start_time \<le> end_time
                  then Inr (start_time \<le> current_time \<and> current_time \<le> end_time)
                  else Inr (current_time \<ge> start_time \<or> current_time \<le> end_time))))"

subsection \<open>Paths\<close>

text \<open>
  The functions of \<^verbatim>\<open>os.path\<close> that the pipeline uses, in their POSIX form (separator
  \<^verbatim>\<open>/\<close>). \<open>rfind\<close> is \<^verbatim>\<open>str.rfind\<close> for one character: the last index of the character,
  or \<open>-1\<close>.
\<close>

fun find_char :: "char \<Rightarrow> string \<Rightarrow> nat option" where
  "find_char c [] = None"
| "find_char c (x # xs) = (if x = c then Some 0 else map_option Suc (find_char c xs))"

definition rfind :: "string \<Rightarrow> char \<Rightarrow> int" where
  "rfind s c = (case find_char c (rev s) of None \<Rightarrow> - 1 | Some i \<Rightarrow> int (length s) - 1 - int i)"

text \<open>\<^verbatim>\<open>os.path.basename(p)\<close>: the text after the last separator.\<close>

definition basename :: "string \<Rightarrow> string" where
  "basename p = drop (nat (rfind p CHR ''/'' + 1)) p"

text \<open>\<^verbatim>\<open>os.path.join(a, b)\<close> with two arguments.\<close>

definition join :: "string \<Rightarrow> string \<Rightarrow> string" where
  "join a b =
     (if startswith b ''/'' then b
      else if a = [] \<or> endswith a ''/'' then a @ b
      else a @ ''/'' @ b)"

text \<open>
  \<^verbatim>\<open>os.path.splitext(p)\<close>: the extension starts at the last dot, provided that dot
  comes after the last separator and some character other than a dot stands between
  them (the loop of \<^verbatim>\<open>genericpath._splitext\<close> that skips leading dots).
\<close>

definition splitext :: "string \<Rightarrow> string \<times> string" where
  "splitext p =
     (let sepIndex = rfind p CHR ''/'';
          dotIndex = rfind p CHR ''.''
      in if dotIndex > sepIndex \<and>
            list_ex (\<lambda>c. c \<noteq> CHR ''.'')
              (take (nat (dotIndex - (sepIndex + 1))) (drop (nat (sepIndex + 1)) p))
         then (take (nat dotIndex) p, drop (nat dotIndex) p)
         else (p, []))"

subsection \<open>The application, its surroundings, and the observable state\<close>

text \<open>
  The fields of \<^verbatim>\<open>VideoConverterApp\<close> that the pipeline reads. \<open>retention_time\<close> is a
  Python integer, \<open>video_codec\<close> may be \<^verbatim>\<open>None\<close>. \<open>gpu_encoders\<close> is the module-level
  dictionary \<^verbatim>\<open>GPU_ENCODERS\<close> (vendor to codec to encoder name, in insertion order),
  and \<open>base_path\<close> the directory that \<^verbatim>\<open>resource_path\<close> resolves against.
\<close>

record app =
  source_folder :: string
  destination_folder :: string
  backup_folder :: string
  delete_after_conversion :: bool
  retention_time :: int
  use_backup :: bool
  output_format :: string
  video_codec :: "string option"
  audio_codec :: string
  copy_only :: bool
  start_time :: string
  end_time :: string
  no_time_restrictions :: bool
  gpu_encoders :: "(string \<times> (string \<times> string) list) list"
  base_path :: string

text \<open>
  What a child process did: it ran and exited with a code, having printed some text,
  or the executable was not found (\<^verbatim>\<open>FileNotFoundError\<close> from \<^verbatim>\<open>subprocess\<close>).
\<close>

datatype proc_result = Exited int string | NotFound

text \<open>
  \<^verbatim>\<open>subprocess.Popen\<close> of the transcode command followed by reading its output: the
  process started, printed these lines and \<^verbatim>\<open>wait()\<close> returned this code; or the
  executable was not found; or another exception was raised.
\<close>

datatype popen_result = Started "string list" int | PopenNotFound | PopenError

text \<open>
  \<^verbatim>\<open>shutil.copy2\<close>: it succeeded, or it raised, leaving nothing or a partial file at the
  destination.
\<close>

datatype copy_result = CopyOk | CopyError "string option"

text \<open>
  The answers of the surroundings during one job or one scan: the clock
  (\<open>current_time\<close> is \<^verbatim>\<open>datetime.now().time()\<close>, \<open>now\<close> is \<^verbatim>\<open>datetime.now()\<close> in
  seconds since \<^verbatim>\<open>datetime.min\<close>, the start of the year 1), the
  outcome of each file operation and child process, what the transcoder leaves at its
  output path (\<open>transcode_output\<close>), the number of output lines read before
  \<^verbatim>\<open>stop_event\<close> is seen set (\<open>stop_at\<close>), the directory that
  \<^verbatim>\<open>tempfile.TemporaryDirectory()\<close> creates, and the result of \<^verbatim>\<open>os.listdir\<close> on
  the source folder (\<open>None\<close> when it raises).
\<close>

record env =
  current_time :: time
  now :: int
  copy_outcome :: copy_result
  rename_ok :: bool
  remove_ok :: bool
  probe_result :: proc_result
  remux_result :: proc_result
  audio_probe_result :: proc_result
  transcode_result :: popen_result
  transcode_output :: "string option"
  stop_at :: "nat option"
  temp_dir :: string
  listdir_result :: "string list option"

text \<open>One constructor for each message that the pipeline passes to \<^verbatim>\<open>log_message\<close>.\<close>

datatype event =
    OutsideAllowedTimes string string
  | OutputFileExists string
  | Copying string
  | SuccessfullyCopied string
  | MovedToBackup string
  | ErrorMovingToBackup string
  | ScheduledDeletion string int
  | ErrorCopying string
  | NoCorruptionDetected string
  | CorruptionDetected string
  | Preprocessing string
  | ErrorPreprocessing string
  | NoAudioStream string
  | Converting string
  | ConversionStopped string
  | OutputLine string
  | SuccessfullyConverted string
  | ErrorExitCode string int
  | FfmpegNotFound
  | ErrorConverting string
  | DeletedOriginal string
  | ErrorDeleting string
  | BuildingAudioOnly
  | UsingGpuEncoder "string option"
  | UsingCpuEncoder
  | FolderMissing
  | ScanningSourceFolder
  | NoNewFilesFound
  | StoppedBeforeCompleting

text \<open>
  The state that a job or a scan can change: the regular files outside the job's
  temporary directory (path to contents), the directories, the log, the started
  deletion timers (fire time in seconds, path), the command lines handed to
  \<^verbatim>\<open>subprocess\<close> in order, and the mutable flags and the counter of the application.
  The temporary directory of a job is created fresh by the \<^verbatim>\<open>with\<close> statement and
  removed with its contents when the statement is left, so no trace of it is kept here.
\<close>

record world =
  files :: "string \<rightharpoonup> string"
  dirs :: "string set"
  logged :: "event list"
  timers :: "(int \<times> string) list"
  calls :: "string list list"
  logged_outside_time_message :: bool
  last_scan_message_logged :: bool
  last_no_files_message_logged :: bool
  active_conversion_count :: nat

text \<open>How one run of \<^verbatim>\<open>convert_file\<close> ended: one constructor for each way out.\<close>

datatype outcome =
    Success
  | SkippedOutsideWindow
  | SkippedExisting
  | SkippedNoAudio
  | CopyFailed
  | PreprocessFailed
  | TranscodeFailed int
  | ToolNotFound
  | ConvertError
  | Stopped
  | Raised error

definition exists :: "world \<Rightarrow> string \<Rightarrow> bool" where
  "exists w p = (files w p \<noteq> None \<or> p \<in> dirs w)"

definition resource_path :: "app \<Rightarrow> string \<Rightarrow> string" where
  "resource_path a relative_path = join (base_path a) relative_path"

definition log_message :: "event \<Rightarrow> world \<Rightarrow> world" where
  "log_message m w = w\<lparr>logged := logged w @ [m]\<rparr>"

definition run_process :: "string list \<Rightarrow> world \<Rightarrow> world" where
  "run_process command w = w\<lparr>calls := calls w @ [command]\<rparr>"

definition start_conversion_indicator :: "world \<Rightarrow> world" where
  "start_conversion_indicator w = w\<lparr>active_conversion_count := active_conversion_count w + 1\<rparr>"

definition end_conversion_indicator :: "world \<Rightarrow> world" where
  "end_conversion_indicator w =
     (if active_conversion_count w > 0
      then w\<lparr>active_conversion_count := active_conversion_count w - 1\<rparr>
      else w)"

subsection \<open>Disposal of the source file\<close>

text \<open>
  \<^verbatim>\<open>VideoConverterApp.delete_file\<close>: the file is removed when it exists; a removal that
  raises is logged.
\<close>

definition delete_file :: "env \<Rightarrow> string \<Rightarrow> world \<Rightarrow> world" where
  "delete_file e file_path w =
     (if exists w file_path then
        (if remove_ok e \<and> files w file_path \<noteq> None
         then log_message (DeletedOriginal file_path) (w\<lparr>files := (files w)(file_path := None)\<rparr>)
         else log_message (ErrorDeleting file_path) w)
      else w)"

text \<open>
  \<^verbatim>\<open>datetime.now() + timedelta(days=r)\<close> raises \<^verbatim>\<open>OverflowError\<close> when \<open>r\<close> has a
  magnitude above 999999999 days, or when the sum is no \<^verbatim>\<open>datetime\<close>: it lies
  before \<^verbatim>\<open>datetime.min\<close> or after the last day of the year 9999, which is day 3652059
  counted from \<^verbatim>\<open>datetime.min\<close>.
\<close>

definition deletion_time_overflows :: "env \<Rightarrow> int \<Rightarrow> bool" where
  "deletion_time_overflows e r =
     (r > 999999999 \<or> r < - 999999999 \<or>
      now e + r * 86400 < 0 \<or> now e + r * 86400 \<ge> 3652059 * 86400)"

text \<open>
  The block that \<^verbatim>\<open>convert_file\<close> runs after a successful copy (lines 1475 to 1491)
  and, word for word, after a successful transcode (lines 1571 to 1587): the move to
  the backup folder, then the deletion or its timer. \<^verbatim>\<open>os.rename\<close> raises
  \<^verbatim>\<open>OSError\<close> when the source is no file of the state or when the surroundings refuse
  the move. The deletion time is computed before the timer is made; its
  \<^verbatim>\<open>OverflowError\<close> leaves the block and is caught by the \<^verbatim>\<open>except Exception\<close> of the
  enclosing \<^verbatim>\<open>try\<close>, which logs its own message: line 1492 around the first copy of
  the block, which runs in copy-only mode only, and line 1594 around the second, which
  runs in the other mode only. No timer is started then; the conversion itself has
  succeeded and was logged as such, so the outcome of the job stays \<open>Success\<close>.
\<close>

definition dispose :: "app \<Rightarrow> env \<Rightarrow> string \<Rightarrow> string \<Rightarrow> world \<Rightarrow> world" where
  "dispose a e file_path file_name w =
     (let w1 =
        (if use_backup a \<and> backup_folder a \<noteq> [] then
           (let backup_file_path = join (backup_folder a) file_name
            in case files w file_path of
                 Some c \<Rightarrow>
                   if rename_ok e
                   then log_message (MovedToBackup file_name)
                          (w\<lparr>files := ((files w)(file_path := None))(backup_file_path \<mapsto> c)\<rparr>)
                   else log_message (ErrorMovingToBackup file_name) w
               | None \<Rightarrow> log_message (ErrorMovingToBackup file_name) w)
         else w)
      in if delete_after_conversion a \<and> \<not> use_backup a then
           (if retention_time a > 0 then
              (if deletion_time_overflows e (retention_time a) then
                 log_message
                   (if copy_only a then ErrorCopying file_path else ErrorConverting file_name) w1
               else
                 (let deletion_time = now e + retention_time a * 86400;
                      w2 = log_message (ScheduledDeletion file_name deletion_time) w1
                  in w2\<lparr>timers := timers w2 @ [(deletion_time, file_path)]\<rparr>))
            else delete_file e file_path w1)
         else w1)"

subsection \<open>Building the transcode command\<close>

text \<open>\<^verbatim>\<open>VideoConverterApp.get_gpu_encoder\<close>.\<close>

definition get_gpu_encoder :: "app \<Rightarrow> (string \<times> string) list option" where
  "get_gpu_encoder a =
     (case map_of (gpu_encoders a) ''nvidia'' of
        Some d \<Rightarrow> Some d
      | None \<Rightarrow>
          (case map_of (gpu_encoders a) ''intel'' of
             Some d \<Rightarrow> Some d
           | None \<Rightarrow>
               (case map_of (gpu_encoders a) ''amd'' of
                  Some d \<Rightarrow> Some d
                | None \<Rightarrow> None)))"

text \<open>
  \<^verbatim>\<open>VideoConverterApp.build_ffmpeg_command\<close>. An element of the command is \<open>None\<close>
  where the Python list holds \<^verbatim>\<open>None\<close> (an unset video codec). An empty dictionary and
  \<^verbatim>\<open>None\<close> are both false in \<^verbatim>\<open>elif gpu_encoder\<close>; an empty audio codec is false in
  \<^verbatim>\<open>self.audio_codec or 'libmp3lame'\<close>.
\<close>

definition build_ffmpeg_command ::
  "app \<Rightarrow> string \<Rightarrow> string \<Rightarrow> world \<Rightarrow> string option list \<times> world" where
  "build_ffmpeg_command a input_file output_file w =
     (let gpu_encoder = get_gpu_encoder a
      in if output_format a = ''mp3'' then
           ([Some (resource_path a ''ffmpeg.exe''), Some ''-y'', Some ''-i'', Some input_file,
             Some ''-vn'',
             Some ''-acodec'', Some (if audio_codec a \<noteq> [] then audio_codec a else ''libmp3lame''),
             Some output_file],
            log_message BuildingAudioOnly w)
         else
           (case gpu_encoder of
              Some (d # ds) \<Rightarrow>
                (let vc = (case map_of (d # ds) ''h264'' of Some v \<Rightarrow> Some v | None \<Rightarrow> video_codec a)
                 in ([Some (resource_path a ''ffmpeg.exe''), Some ''-y'', Some ''-i'', Some input_file,
                      Some ''-vcodec'', vc,
                      Some ''-acodec'', Some (audio_codec a),
                      Some output_file],
                     log_message (UsingGpuEncoder vc) w))
            | _ \<Rightarrow>
                ([Some (resource_path a ''ffmpeg.exe''), Some ''-y'', Some ''-i'', Some input_file,
                  Some ''-vcodec'', video_codec a,
                  Some ''-acodec'', Some (audio_codec a),
                  Some output_file],
                 log_message UsingCpuEncoder w)))"

subsection \<open>One job: \<^verbatim>\<open>convert_file\<close>\<close>

text \<open>\<^verbatim>\<open>str.strip()\<close> on ASCII text.\<close>

definition is_space :: "char \<Rightarrow> bool" where
  "is_space c =
     (c \<in> set [CHR '' '', CHR 0x09, CHR 0x0A, CHR 0x0B, CHR 0x0C, CHR 0x0D,
                CHR 0x1C, CHR 0x1D, CHR 0x1E, CHR 0x1F])"

definition strip :: "string \<Rightarrow> string" where
  "strip s = rev (dropWhile is_space (rev (dropWhile is_space s)))"

text \<open>
  The name of the destination artifact of a source file name, as both
  \<^verbatim>\<open>convert_file\<close> and \<^verbatim>\<open>convert_videos\<close> compute it.
\<close>

definition destination_name :: "app \<Rightarrow> string \<Rightarrow> string" where
  "destination_name a f =
     (if copy_only a then f else fst (splitext f) @ ''.'' @ output_format a)"

text \<open>
  The loop over the output lines of the transcoder (lines 1560 to 1565): line \<open>i\<close> is
  logged unless the stop event is seen set there. The result tells whether the loop
  was left by the stop.
\<close>

fun read_output :: "nat option \<Rightarrow> nat \<Rightarrow> string list \<Rightarrow> world \<Rightarrow> bool \<times> world" where
  "read_output stop i [] w = (False, w)"
| "read_output stop i (l # ls) w =
     (if stop = Some i then (True, w)
      else read_output stop (Suc i) ls (log_message (OutputLine (strip l)) w))"

text \<open>
  Lines 1545 to 1595: the command is built, the process is started and read, and on
  exit code 0 the source is disposed of. A command that holds \<^verbatim>\<open>None\<close> makes
  \<^verbatim>\<open>Popen\<close> raise \<^verbatim>\<open>TypeError\<close> before any process starts.
\<close>

definition run_transcode ::
  "app \<Rightarrow> env \<Rightarrow> string \<Rightarrow> string \<Rightarrow> string \<Rightarrow> string \<Rightarrow> world \<Rightarrow> outcome \<times> world" where
  "run_transcode a e file_path file_name destination_file input_file w =
     (let (command, w1) = build_ffmpeg_command a input_file destination_file w;
          w2 = log_message (Converting file_name) w1
      in case those command of
           None \<Rightarrow> (ConvertError, log_message (ErrorConverting file_name) w2)
         | Some argv \<Rightarrow>
             (let w3 = run_process argv w2
              in case transcode_result e of
                   PopenNotFound \<Rightarrow> (ToolNotFound, log_message FfmpegNotFound w3)
                 | PopenError \<Rightarrow> (ConvertError, log_message (ErrorConverting file_name) w3)
                 | Started lines return_code \<Rightarrow>
                     (let w4 = w3\<lparr>files :=
                                (case transcode_output e of
                                   None \<Rightarrow> files w3
                                 | Some c \<Rightarrow> (files w3)(destination_file \<mapsto> c))\<rparr>;
                          (stopped, w5) = read_output (stop_at e) 0 lines w4
                      in if stopped then (Stopped, log_message (ConversionStopped file_name) w5)
                         else if return_code = 0 then
                           (Success,
                            dispose a e file_path file_name
                              (log_message (SuccessfullyConverted file_name) w5))
                         else
                           (TranscodeFailed return_code,
                            log_message (ErrorExitCode file_name return_code) w5))))"

text \<open>
  The command lines of the three helper processes: the corruption probe
  (\<^verbatim>\<open>probe_command\<close>, line 1504), the remux (\<^verbatim>\<open>preprocess_command\<close>, line 1520) and
  the audio stream probe (\<^verbatim>\<open>command\<close> in \<^verbatim>\<open>has_audio_stream\<close>).
\<close>

definition probe_command :: "app \<Rightarrow> string \<Rightarrow> string list" where
  "probe_command a file_path = [resource_path a ''ffprobe.exe'', ''-v'', ''error'', ''-i'', file_path]"

definition preprocess_command :: "app \<Rightarrow> string \<Rightarrow> string \<Rightarrow> string list" where
  "preprocess_command a file_path temp_fixed_file =
     [resource_path a ''ffmpeg.exe'', ''-i'', file_path, ''-c'', ''copy'', temp_fixed_file]"

definition audio_command :: "app \<Rightarrow> string \<Rightarrow> string list" where
  "audio_command a file_path =
     [resource_path a ''ffprobe.exe'', ''-v'', ''error'', ''-select_streams'', ''a'',
      ''-show_entries'', ''stream=codec_type'', ''-of'', ''default=nw=1'', file_path]"

text \<open>
  Lines 1539 to 1543, \<^verbatim>\<open>has_audio_stream\<close> included: when the target is mp3, the input
  is probed for an audio stream first.
\<close>

definition encode ::
  "app \<Rightarrow> env \<Rightarrow> string \<Rightarrow> string \<Rightarrow> string \<Rightarrow> string \<Rightarrow> world \<Rightarrow> outcome \<times> world" where
  "encode a e file_path file_name destination_file input_file w =
     (if output_format a = ''mp3'' then
        (let w1 = run_process (audio_command a input_file) w
         in case audio_probe_result e of
              NotFound \<Rightarrow> (Raised FileNotFoundError, w1)
            | Exited code out \<Rightarrow>
                if \<not> contains out ''codec_type=audio''
                then (SkippedNoAudio, log_message (NoAudioStream file_name) w1)
                else run_transcode a e file_path file_name destination_file input_file w1)
      else run_transcode a e file_path file_name destination_file input_file w)"

text \<open>
  Lines 1496 to 1537: the corruption probe and, when it fails, the stream-copy remux
  into the temporary directory. \<^verbatim>\<open>check=True\<close> turns a non-zero exit code into
  \<^verbatim>\<open>CalledProcessError\<close>, which both \<^verbatim>\<open>try\<close> blocks catch; a missing executable is
  not caught and leaves \<^verbatim>\<open>convert_file\<close>.
\<close>

definition transcode_job ::
  "app \<Rightarrow> env \<Rightarrow> string \<Rightarrow> string \<Rightarrow> string \<Rightarrow> world \<Rightarrow> outcome \<times> world" where
  "transcode_job a e file_path file_name destination_file w =
     (let temp_fixed_file = join (temp_dir e) (''fixed_'' @ file_name);
          w1 = run_process (probe_command a file_path) w
      in case probe_result e of
           NotFound \<Rightarrow> (Raised FileNotFoundError, w1)
         | Exited code out \<Rightarrow>
             if code = 0 then
               encode a e file_path file_name destination_file file_path
                 (log_message (NoCorruptionDetected file_name) w1)
             else
               (let w2 = log_message (CorruptionDetected file_name) w1;
                    w3 = run_process (preprocess_command a file_path temp_fixed_file)
                           (log_message (Preprocessing file_name) w2)
                in case remux_result e of
                     NotFound \<Rightarrow> (Raised FileNotFoundError, w3)
                   | Exited code' out' \<Rightarrow>
                       if code' \<noteq> 0
                       then (PreprocessFailed, log_message (ErrorPreprocessing file_path) w3)
                       else encode a e file_path file_name destination_file temp_fixed_file w3))"

text \<open>
  Lines 1468 to 1494: copy-only mode. \<^verbatim>\<open>shutil.copy2\<close> raises when the source is
  missing; any exception of the block is logged.
\<close>

definition copy_job ::
  "app \<Rightarrow> env \<Rightarrow> string \<Rightarrow> string \<Rightarrow> string \<Rightarrow> world \<Rightarrow> outcome \<times> world" where
  "copy_job a e file_path file_name destination_file w =
     (let w1 = log_message (Copying file_name) w
      in case files w1 file_path of
           None \<Rightarrow> (CopyFailed, log_message (ErrorCopying file_path) w1)
         | Some c \<Rightarrow>
             (case copy_outcome e of
                CopyError left \<Rightarrow>
                  (CopyFailed,
                   log_message (ErrorCopying file_path)
                     (w1\<lparr>files := (case left of
                                       None \<Rightarrow> files w1
                                     | Some p \<Rightarrow> (files w1)(destination_file \<mapsto> p))\<rparr>))
              | CopyOk \<Rightarrow>
                  (Success,
                   dispose a e file_path file_name
                     (log_message (SuccessfullyCopied file_name)
                        (w1\<lparr>files := (files w1)(destination_file \<mapsto> c)\<rparr>)))))"

text \<open>
  \<^verbatim>\<open>VideoConverterApp.convert_file\<close>. The gate is asked before the \<^verbatim>\<open>try\<close> block, so
  its \<^verbatim>\<open>ValueError\<close> leaves the function at once; every way out of the \<^verbatim>\<open>try\<close> block
  passes through \<^verbatim>\<open>end_conversion_indicator\<close>.
\<close>

definition convert_file :: "app \<Rightarrow> env \<Rightarrow> string \<Rightarrow> world \<Rightarrow> outcome \<times> world" where
  "convert_file a e file_path w =
     (case is_within_allowed_hours (no_time_restrictions a) (start_time a) (end_time a)
             (current_time e) of
        Inl err \<Rightarrow> (Raised err, w)
      | Inr allowed \<Rightarrow>
          if \<not> allowed then
            (SkippedOutsideWindow,
             if \<not> logged_outside_time_message w
             then (log_message (OutsideAllowedTimes (start_time a) (end_time a)) w)
                    \<lparr>logged_outside_time_message := True\<rparr>
             else w)
          else
            (let w1 = start_conversion_indicator (w\<lparr>logged_outside_time_message := False\<rparr>);
                 file_name = basename file_path;
                 destination_file = join (destination_folder a) (destination_name a file_name);
                 (r, w2) =
                   (if exists w1 destination_file
                    then (SkippedExisting, log_message (OutputFileExists destination_file) w1)
                    else if copy_only a
                    then copy_job a e file_path file_name destination_file w1
                    else transcode_job a e file_path file_name destination_file w1)
             in (r, end_conversion_indicator w2)))"

text \<open>
  Lines 1454 and 1455: the job passed the gate, the flag is reset and the indicator
  counts the job.
\<close>

definition job_start :: "world \<Rightarrow> world" where
  "job_start w = start_conversion_indicator (w\<lparr>logged_outside_time_message := False\<rparr>)"

subsection \<open>One scan: \<^verbatim>\<open>convert_videos\<close>\<close>

definition supported_formats :: "string list" where
  "supported_formats =
     [''.mp4'', ''.avi'', ''.wmv'', ''.mkv'', ''.flv'', ''.webm'', ''.mov'', ''.mpeg'',
      ''.mpg'', ''.m4v'', ''.3gp'', ''.ts'', ''.vob'', ''.rm'', ''.rmvb'', ''.asf'',
      ''.m2ts'', ''.mts'', ''.ogv'', ''.divx'', ''.dv'', ''.f4v'', ''.mxf'', ''.nut'',
      ''.ogm'', ''.qt'', ''.tod'', ''.vro'']"

text \<open>
  The list comprehension of lines 1622 to 1626, over the result of
  \<^verbatim>\<open>os.listdir(self.source_folder)\<close>.
\<close>

definition new_files :: "app \<Rightarrow> string list \<Rightarrow> world \<Rightarrow> string list" where
  "new_files a listing w =
     map (join (source_folder a))
       (filter (\<lambda>f. endswith_any (lower f) supported_formats \<and>
                    \<not> exists w (join (destination_folder a) (destination_name a f)))
          listing)"

text \<open>
  \<^verbatim>\<open>VideoConverterApp.convert_videos\<close>. The result is the list of paths handed to
  \<^verbatim>\<open>self.executor.submit(self.convert_file, file_path)\<close>, in order, or the exception
  that leaves the function. The submission loop stops at the file where the stop
  event is seen set.
\<close>

definition convert_videos :: "app \<Rightarrow> env \<Rightarrow> world \<Rightarrow> (error + string list) \<times> world" where
  "convert_videos a e w =
     (if \<not> exists w (source_folder a) \<or> \<not> exists w (destination_folder a)
      then (Inr [], log_message FolderMissing w)
      else
        (case is_within_allowed_hours (no_time_restrictions a) (start_time a) (end_time a)
                (current_time e) of
           Inl err \<Rightarrow> (Inl err, w)
         | Inr allowed \<Rightarrow>
             if \<not> allowed then
               (Inr [],
                if \<not> logged_outside_time_message w
                then (log_message (OutsideAllowedTimes (start_time a) (end_time a)) w)
                       \<lparr>logged_outside_time_message := True\<rparr>
                else w)
             else
               (let w1 = w\<lparr>logged_outside_time_message := False\<rparr>
                in case listdir_result e of
                     None \<Rightarrow> (Inl OSError, w1)
                   | Some listing \<Rightarrow>
                       (let found = new_files a listing w1
                        in if found = [] then
                             (let w2 = (if \<not> last_scan_message_logged w1
                                        then (log_message ScanningSourceFolder w1)
                                               \<lparr>last_scan_message_logged := True\<rparr>
                                        else w1);
                                  w3 = (if \<not> last_no_files_message_logged w2
                                        then (log_message NoNewFilesFound w2)
                                               \<lparr>last_no_files_message_logged := True\<rparr>
                                        else w2)
                              in (Inr [], w3))
                           else
                             (let w2 = w1\<lparr>last_scan_message_logged := False,
                                           last_no_files_message_logged := False\<rparr>
                              in case stop_at e of
                                   None \<Rightarrow> (Inr found, w2)
                                 | Some k \<Rightarrow>
                                     if k < length found
                                     then (Inr (take k found),
                                           log_message StoppedBeforeCompleting w2)
                                     else (Inr found, w2))))))"

subsection \<open>The scan loop and the worker pool\<close>

text \<open>
  \<^verbatim>\<open>run_conversion\<close> calls \<^verbatim>\<open>convert_videos\<close> every five seconds, and each call
  submits its files to \<^verbatim>\<open>ThreadPoolExecutor(max_workers=4)\<close>: a submitted job waits in
  the queue of the executor until one of at most four workers takes it. The
  dispatcher state holds the queue and the jobs in the hands of a worker. An
  interleaving is a list of actions: a scan, a worker taking the next queued job, a
  running job coming to its end (its effect on the world is that of \<^verbatim>\<open>convert_file\<close>).
  The application keeps no other record of the submitted paths.
\<close>

record dispatcher =
  world_of :: world
  queued :: "string list"
  running :: "string list"

datatype action = Scan env | Take | Finish nat env

definition max_workers :: nat where
  "max_workers = 4"

fun step :: "app \<Rightarrow> action \<Rightarrow> dispatcher \<Rightarrow> dispatcher" where
  "step a (Scan e) d =
     (case convert_videos a e (world_of d) of
        (Inr submitted, w) \<Rightarrow> d\<lparr>world_of := w, queued := queued d @ submitted\<rparr>
      | (Inl err, w) \<Rightarrow> d\<lparr>world_of := w\<rparr>)"
| "step a Take d =
     (case queued d of
        [] \<Rightarrow> d
      | p # ps \<Rightarrow>
          if length (running d) < max_workers
          then d\<lparr>queued := ps, running := running d @ [p]\<rparr>
          else d)"
| "step a (Finish i e) d =
     (if i < length (running d)
      then d\<lparr>world_of := snd (convert_file a e (running d ! i) (world_of d)),
              running := take i (running d) @ drop (Suc i) (running d)\<rparr>
      else d)"

fun run_actions :: "app \<Rightarrow> action list \<Rightarrow> dispatcher \<Rightarrow> dispatcher" where
  "run_actions a [] d = d"
| "run_actions a (x # xs) d = run_actions a xs (step a x d)"

text \<open>The jobs in flight: submitted and not yet at their end.\<close>

definition in_flight :: "dispatcher \<Rightarrow> string list" where
  "in_flight d = running d @ queued d"

subsection \<open>The encoder capability probe\<close>

text \<open>
  \<^verbatim>\<open>get_supported_encoders\<close>, as a function of what
  \<^verbatim>\<open>subprocess.run([ffmpeg, '-encoders'], check=True)\<close> did. The function catches
  \<^verbatim>\<open>CalledProcessError\<close> only.
\<close>

definition get_supported_encoders ::
  "proc_result \<Rightarrow> error + (string \<times> (string \<times> string) list) list" where
  "get_supported_encoders r =
     (case r of
        NotFound \<Rightarrow> Inl FileNotFoundError
      | Exited code out \<Rightarrow>
          if code \<noteq> 0 then Inr []
          else
            (let encoders = lower out
             in Inr
                  ((if contains encoders ''h264_nvenc'' \<or> contains encoders ''hevc_nvenc''
                    then [(''nvidia'', [(''h264'', ''h264_nvenc''), (''hevc'', ''hevc_nvenc'')])]
                    else []) @
                   (if contains encoders ''h264_qsv'' \<or> contains encoders ''hevc_qsv''
                    then [(''intel'', [(''h264'', ''h264_qsv''), (''hevc'', ''hevc_qsv'')])]
                    else []) @
                   (if contains encoders ''h264_amf'' \<or> contains encoders ''hevc_amf''
                    then [(''amd'', [(''h264'', ''h264_amf''), (''hevc'', ''hevc_amf'')])]
                    else []))))"

subsection \<open>Settings: validation, loading, and the fields of the application\<close>

text \<open>
  A value read by \<^verbatim>\<open>json.load\<close>. \<open>JInt n\<close> is the Python integer \<open>n\<close>, \<open>JFloat n\<close> a
  float whose value is the integer \<open>n\<close> (as \<^verbatim>\<open>1.0\<close>), \<open>JReal\<close> any other float; an
  object is the Python dictionary, its keys distinct.
\<close>

datatype json =
    JNull
  | JBool bool
  | JInt int
  | JFloat int
  | JReal
  | JStr string
  | JArr "json list"
  | JObj "(string \<times> json) list"

datatype jtype = TString | TBoolean | TInteger | TNull

fun has_type :: "json \<Rightarrow> jtype \<Rightarrow> bool" where
  "has_type (JStr s) TString = True"
| "has_type (JBool b) TBoolean = True"
| "has_type (JInt n) TInteger = True"
| "has_type (JFloat n) TInteger = True"
| "has_type JNull TNull = True"
| "has_type v t = False"

text \<open>
  The schema of \<^verbatim>\<open>validate_settings\<close>: for each property its allowed types and its
  \<^verbatim>\<open>minimum\<close>, and the list of required properties. The type \<^verbatim>\<open>integer\<close> of
  \<^verbatim>\<open>jsonschema\<close> holds of an integer and of a float with an integral value, and of no
  boolean.
\<close>

definition schema_properties :: "(string \<times> jtype list \<times> int option) list" where
  "schema_properties =
     [(''source_folder'', [TString], None),
      (''destination_folder'', [TString], None),
      (''backup_folder'', [TString], None),
      (''auto_run'', [TBoolean], None),
      (''delete_after_conversion'', [TBoolean], None),
      (''retention_time'', [TInteger], Some 0),
      (''use_backup'', [TBoolean], None),
      (''output_format'', [TString], None),
      (''video_codec'', [TString, TNull], None),
      (''audio_codec'', [TString], None),
      (''copy_only'', [TBoolean], None),
      (''locked'', [TBoolean], None),
      (''start_time'', [TString], None),
      (''end_time'', [TString], None),
      (''no_time_restrictions'', [TBoolean], None)]"

definition schema_required :: "string list" where
  "schema_required =
     [''auto_run'', ''delete_after_conversion'', ''retention_time'',
      ''use_backup'', ''output_format'', ''copy_only'', ''locked'',
      ''start_time'', ''end_time'', ''no_time_restrictions'']"

text \<open>
  A property of the schema constrains the value only when the key is present; the
  minimum constrains numbers only.
\<close>

definition property_ok :: "(string \<times> json) list \<Rightarrow> string \<times> jtype list \<times> int option \<Rightarrow> bool" where
  "property_ok kv p =
     (case p of (k, ts, mn) \<Rightarrow>
        (case map_of kv k of
           None \<Rightarrow> True
         | Some v \<Rightarrow>
             list_ex (has_type v) ts \<and>
             (case (mn, v) of
                (Some m, JInt n) \<Rightarrow> m \<le> n
              | (Some m, JFloat n) \<Rightarrow> m \<le> n
              | _ \<Rightarrow> True)))"

text \<open>
  \<^verbatim>\<open>validate_settings\<close>: true when \<^verbatim>\<open>jsonschema.validate\<close> returns, false when it
  raises \<^verbatim>\<open>ValidationError\<close>.
\<close>

definition validate_settings :: "json \<Rightarrow> bool" where
  "validate_settings settings =
     (case settings of
        JObj kv \<Rightarrow>
          list_all (property_ok kv) schema_properties \<and>
          list_all (\<lambda>k. map_of kv k \<noteq> None) schema_required
      | _ \<Rightarrow> False)"

definition default_settings :: json where
  "default_settings =
     JObj [(''source_folder'', JStr ''''),
           (''destination_folder'', JStr ''''),
           (''backup_folder'', JStr ''''),
           (''auto_run'', JBool False),
           (''delete_after_conversion'', JBool False),
           (''retention_time'', JInt 0),
           (''use_backup'', JBool False),
           (''output_format'', JStr ''mp4''),
           (''video_codec'', JStr ''libx264''),
           (''audio_codec'', JStr ''aac''),
           (''copy_only'', JBool False),
           (''locked'', JBool False),
           (''start_time'', JStr ''00:00''),
           (''end_time'', JStr ''23:59''),
           (''no_time_restrictions'', JBool True)]"

text \<open>
  The settings file as \<^verbatim>\<open>load_settings\<close> finds it: absent, unreadable as JSON, or
  parsed.
\<close>

datatype settings_file = Missing | Corrupt | Parsed json

definition load_settings :: "settings_file \<Rightarrow> json" where
  "load_settings f =
     (case f of
        Missing \<Rightarrow> default_settings
      | Corrupt \<Rightarrow> default_settings
      | Parsed settings \<Rightarrow> if validate_settings settings then settings else default_settings)"

text \<open>
  \<^verbatim>\<open>self.settings.get(key, default)\<close> at the type that the schema gives the key. A
  value of another type cannot come out of \<^verbatim>\<open>load_settings\<close>; the default stands in
  for it. A number is read as its value: the comparison with 0, the deletion time and
  the interval of the timer are the same for the float \<^verbatim>\<open>1.0\<close> and the integer 1.
\<close>

definition entries :: "json \<Rightarrow> (string \<times> json) list" where
  "entries settings = (case settings of JObj kv \<Rightarrow> kv | _ \<Rightarrow> [])"

definition get_str :: "json \<Rightarrow> string \<Rightarrow> string \<Rightarrow> string" where
  "get_str settings k d = (case map_of (entries settings) k of Some (JStr s) \<Rightarrow> s | _ \<Rightarrow> d)"

definition get_bool :: "json \<Rightarrow> string \<Rightarrow> bool \<Rightarrow> bool" where
  "get_bool settings k d = (case map_of (entries settings) k of Some (JBool b) \<Rightarrow> b | _ \<Rightarrow> d)"

definition get_int :: "json \<Rightarrow> string \<Rightarrow> int \<Rightarrow> int" where
  "get_int settings k d =
     (case map_of (entries settings) k of
        Some (JInt n) \<Rightarrow> n
      | Some (JFloat n) \<Rightarrow> n
      | _ \<Rightarrow> d)"

definition get_str_or_null :: "json \<Rightarrow> string \<Rightarrow> string \<Rightarrow> string option" where
  "get_str_or_null settings k d =
     (case map_of (entries settings) k of
        Some (JStr s) \<Rightarrow> Some s
      | Some JNull \<Rightarrow> None
      | _ \<Rightarrow> Some d)"

text \<open>
  The fields that \<^verbatim>\<open>VideoConverterApp.__init__\<close> (lines 847 to 862) and
  \<^verbatim>\<open>update_settings\<close> read from the settings dictionary.
\<close>

definition app_of_settings ::
  "(string \<times> (string \<times> string) list) list \<Rightarrow> string \<Rightarrow> json \<Rightarrow> app" where
  "app_of_settings encoders base settings =
     \<lparr>source_folder = get_str settings ''source_folder'' '''',
      destination_folder = get_str settings ''destination_folder'' '''',
      backup_folder = get_str settings ''backup_folder'' '''',
      delete_after_conversion = get_bool settings ''delete_after_conversion'' False,
      retention_time = get_int settings ''retention_time'' 0,
      use_backup = get_bool settings ''use_backup'' False,
      output_format = get_str settings ''output_format'' ''mp4'',
      video_codec = get_str_or_null settings ''video_codec'' ''libx264'',
      audio_codec = get_str settings ''audio_codec'' ''aac'',
      copy_only = get_bool settings ''copy_only'' False,
      start_time = get_str settings ''start_time'' ''00:00'',
      end_time = get_str settings ''end_time'' ''23:59'',
      no_time_restrictions = get_bool settings ''no_time_restrictions'' True,
      gpu_encoders = encoders,
      base_path = base\<rparr>"

subsection \<open>The deletion tab of the settings dialog\<close>

text \<open>
  \<^verbatim>\<open>str(n)\<close>, \<^verbatim>\<open>text.isdigit()\<close> and \<^verbatim>\<open>int(text)\<close> on ASCII text. \<open>str_float\<close> is
  \<^verbatim>\<open>str\<close> of a float with an integral value, as \<^verbatim>\<open>'1.0'\<close>; from 1e16 on Python
  prints an exponent (\<^verbatim>\<open>'1e+16'\<close>) instead, a text that \<^verbatim>\<open>isdigit\<close> and \<^verbatim>\<open>int\<close> refuse
  as well. \<open>int_of_digits\<close> reads a text of digits. \<open>int_of_str\<close> is \<^verbatim>\<open>int(text)\<close> on a
  text that \<^verbatim>\<open>str\<close> made of a number: digits after an optional minus sign, and
  \<open>None\<close>, the \<^verbatim>\<open>ValueError\<close>, for any other text.
\<close>

fun str_nat :: "nat \<Rightarrow> string" where
  "str_nat n =
     (if n < 10 then [''0123456789'' ! n]
      else str_nat (n div 10) @ [''0123456789'' ! (n mod 10)])"

definition str_int :: "int \<Rightarrow> string" where
  "str_int n = (if n < 0 then ''-'' @ str_nat (nat (- n)) else str_nat (nat n))"

definition isdigit :: "string \<Rightarrow> bool" where
  "isdigit text = (text \<noteq> [] \<and> list_all is_digit text)"

definition int_of_digits :: "string \<Rightarrow> int" where
  "int_of_digits text = foldl (\<lambda>n c. 10 * n + int (digit_val c)) 0 text"

definition str_float :: "int \<Rightarrow> string" where
  "str_float n = str_int n @ ''.0''"

definition int_of_str :: "string \<Rightarrow> int option" where
  "int_of_str text =
     (case text of
        [] \<Rightarrow> None
      | c # cs \<Rightarrow>
          if c = CHR ''-'' then (if isdigit cs then Some (- int_of_digits cs) else None)
          else if isdigit text then Some (int_of_digits text)
          else None)"

text \<open>
  The widgets of \<^verbatim>\<open>create_deletion_tab\<close>: the two check boxes, the retention text,
  and whether the backup check box is enabled.
\<close>

record dialog =
  delete_after_checked :: bool
  retention_input :: string
  use_backup_checked :: bool
  use_backup_enabled :: bool

text \<open>
  \<^verbatim>\<open>str(self.current_settings.get('retention_time', 0))\<close>, the text that the retention
  field is created with.
\<close>

definition retention_text :: "json \<Rightarrow> string" where
  "retention_text current_settings =
     (case map_of (entries current_settings) ''retention_time'' of
        Some (JInt n) \<Rightarrow> str_int n
      | Some (JFloat n) \<Rightarrow> str_float n
      | _ \<Rightarrow> ''0'')"

text \<open>
  \<^verbatim>\<open>SettingsDialog.create_deletion_tab\<close>: the widgets are filled from the current
  settings before any signal is connected. Line 567 reads the retention text back
  with \<^verbatim>\<open>int\<close> when the deletion box is checked (the \<^verbatim>\<open>and\<close> does not evaluate it
  otherwise); a text that \<^verbatim>\<open>int\<close> refuses raises \<^verbatim>\<open>ValueError\<close>.
\<close>

definition create_deletion_tab :: "json \<Rightarrow> error + dialog" where
  "create_deletion_tab current_settings =
     (let del = get_bool current_settings ''delete_after_conversion'' False;
          text = retention_text current_settings;
          backup = get_bool current_settings ''use_backup'' False
      in if del then
           (case int_of_str text of
              None \<Rightarrow> Inl ValueError
            | Some n \<Rightarrow>
                Inr \<lparr>delete_after_checked = del, retention_input = text,
                     use_backup_checked = backup, use_backup_enabled = (\<not> (n = 0))\<rparr>)
         else
           Inr \<lparr>delete_after_checked = del, retention_input = text,
                use_backup_checked = backup, use_backup_enabled = True\<rparr>)"

text \<open>\<^verbatim>\<open>SettingsDialog.retention_time_changed\<close>.\<close>

definition retention_time_changed :: "string \<Rightarrow> dialog \<Rightarrow> dialog" where
  "retention_time_changed text d =
     (let retention = (if isdigit text then int_of_digits text else 0)
      in if delete_after_checked d then
           (if retention = 0 then
              (if use_backup_enabled d
               then d\<lparr>use_backup_enabled := False, use_backup_checked := False\<rparr>
               else d)
            else
              (if \<not> use_backup_enabled d then d\<lparr>use_backup_enabled := True\<rparr> else d))
         else
           (if \<not> use_backup_enabled d then d\<lparr>use_backup_enabled := True\<rparr> else d))"

text \<open>
  \<^verbatim>\<open>SettingsDialog.save_settings\<close>, the three entries of the deletion tab: \<open>None\<close> when
  the retention text is refused, else the values written into the settings.
\<close>

definition dialog_save_settings :: "dialog \<Rightarrow> (string \<times> json) list option" where
  "dialog_save_settings d =
     (let text = retention_input d
      in if delete_after_checked d \<and>
            (\<not> isdigit text \<or> \<not> (0 \<le> int_of_digits text \<and> int_of_digits text \<le> 30))
         then None
         else Some [(''delete_after_conversion'', JBool (delete_after_checked d)),
                    (''retention_time'', JInt (if isdigit text then int_of_digits text else 0)),
                    (''use_backup'', JBool (use_backup_checked d))])"

subsection \<open>A concrete installation\<close>

text \<open>
  An application, answers of the surroundings and a state to evaluate the pipeline on:
  two videos in the source folder, one already converted, every operation succeeding,
  at noon of 4 November 2026.
\<close>

definition example_app :: app where
  "example_app =
     \<lparr>source_folder = ''/src'', destination_folder = ''/dst'', backup_folder = ''/bak'',
      delete_after_conversion = False, retention_time = 0, use_backup = False,
      output_format = ''mov'', video_codec = Some ''libx264'', audio_codec = ''aac'',
      copy_only = False, start_time = ''09:00'', end_time = ''17:00'',
      no_time_restrictions = True, gpu_encoders = [], base_path = ''/app''\<rparr>"

definition example_env :: env where
  "example_env =
     \<lparr>current_time = (12, 0, 0, 0), now = 63929390400, copy_outcome = CopyOk, rename_ok = True,
      remove_ok = True, probe_result = Exited 0 [], remux_result = Exited 0 [],
      audio_probe_result = Exited 0 ''codec_type=audio'',
      transcode_result = Started [''frame=1''] 0, transcode_output = Some ''encoded'',
      stop_at = None, temp_dir = ''/tmp/job'', listdir_result = Some [''a.mp4'', ''b.mp4'']\<rparr>"

definition example_world :: world where
  "example_world =
     \<lparr>files = [''/src/a.mp4'' \<mapsto> ''A'', ''/src/b.mp4'' \<mapsto> ''B'', ''/dst/a.mov'' \<mapsto> ''X''],
      dirs = {''/src'', ''/dst'', ''/bak''},
      logged = [], timers = [], calls = [],
      logged_outside_time_message = False, last_scan_message_logged = False,
      last_no_files_message_logged = False, active_conversion_count = 0\<rparr>"

text \<open>
  A settings file that passes the schema and selects the backup together with
  immediate deletion, and the dispatcher before its first scan.
\<close>

definition conflicting_settings :: json where
  "conflicting_settings =
     JObj [(''source_folder'', JStr ''/src''),
           (''destination_folder'', JStr ''/dst''),
           (''backup_folder'', JStr ''/bak''),
           (''auto_run'', JBool False),
           (''delete_after_conversion'', JBool True),
           (''retention_time'', JInt 0),
           (''use_backup'', JBool True),
           (''output_format'', JStr ''mov''),
           (''video_codec'', JStr ''libx264''),
           (''audio_codec'', JStr ''aac''),
           (''copy_only'', JBool False),
           (''locked'', JBool False),
           (''start_time'', JStr ''09:00''),
           (''end_time'', JStr ''17:00''),
           (''no_time_restrictions'', JBool True)]"

definition example_dispatcher :: dispatcher where
  "example_dispatcher = \<lparr>world_of = example_world, queued = [], running = []\<rparr>"

section \<open>Theorems\<close>

subsection \<open>The time-window gate\<close>

text \<open>
  Claim C3. The gate answers true whenever \<open>no_time_restrictions\<close> is set, whatever
  the window texts are. Otherwise, with the window texts read by \<^verbatim>\<open>strptime\<close> as
  the times \<open>st\<close> and \<open>en\<close>, it answers \<open>st \<le> tm \<and> tm \<le> en\<close> at the time \<open>tm\<close> when \<open>st \<le> en\<close>, and
  \<open>tm \<ge> st \<or> tm \<le> en\<close> when the window crosses midnight. At 10:00 in the window
  09:00 to 17:00 the answer is true, at 20:00 it is false, and at 23:30 in the
  window 22:00 to 06:00 it is true.
\<close>

theorem time_window_gate:
  "is_within_allowed_hours True s e t = Inr True \<and>
   (strptime_HM s = Some st \<and> strptime_HM e = Some en \<and> st \<le> en \<longrightarrow>
      is_within_allowed_hours False s e tm = Inr (st \<le> tm \<and> tm \<le> en)) \<and>
   (strptime_HM s = Some st \<and> strptime_HM e = Some en \<and> st > en \<longrightarrow>
      is_within_allowed_hours False s e tm = Inr (tm \<ge> st \<or> tm \<le> en)) \<and>
   is_within_allowed_hours False ''09:00'' ''17:00'' (10, 0, 0, 0) = Inr True \<and>
   is_within_allowed_hours False ''09:00'' ''17:00'' (20, 0, 0, 0) = Inr False \<and>
   is_within_allowed_hours False ''22:00'' ''06:00'' (23, 30, 0, 0) = Inr True"
proof -
  have ex: "strptime_HM ''09:00'' = Some (9, 0, 0, 0)" "strptime_HM ''17:00'' = Some (17, 0, 0, 0)"
    "strptime_HM ''22:00'' = Some (22, 0, 0, 0)" "strptime_HM ''06:00'' = Some (6, 0, 0, 0)"
    by (simp_all add: strptime_HM_def is_digit_def digit_val_def)
  have gen: "is_within_allowed_hours False s e tm =
      Inr (if st \<le> en then st \<le> tm \<and> tm \<le> en else tm \<ge> st \<or> tm \<le> en)"
    if "strptime_HM s = Some st" "strptime_HM e = Some en" for s e st en tm
    using that by (simp add: is_within_allowed_hours_def)
  have "is_within_allowed_hours True s e t = Inr True"
    by (simp add: is_within_allowed_hours_def)
  moreover have "is_within_allowed_hours False ''09:00'' ''17:00'' (10, 0, 0, 0) = Inr True"
    by (simp add: gen [OF ex(1) ex(2)])
  moreover have "is_within_allowed_hours False ''09:00'' ''17:00'' (20, 0, 0, 0) = Inr False"
    by (simp add: gen [OF ex(1) ex(2)])
  moreover have "is_within_allowed_hours False ''22:00'' ''06:00'' (23, 30, 0, 0) = Inr True"
    by (simp add: gen [OF ex(3) ex(4)])
  ultimately show ?thesis
    using gen [of s st e en tm] by (auto simp: not_le)
qed

theorem time_window_gate_witness:
  "strptime_HM ''22:00'' = Some (22, 0, 0, 0) \<and> strptime_HM ''06:00'' = Some (6, 0, 0, 0) \<and>
   strptime_HM ''09:00'' = Some (9, 0, 0, 0) \<and> strptime_HM ''17:00'' = Some (17, 0, 0, 0) \<and>
   (9, 0, 0, 0) \<le> ((17, 0, 0, 0) :: time) \<and> (22, 0, 0, 0) > ((6, 0, 0, 0) :: time) \<and>
   is_within_allowed_hours False ''09:00'' ''17:00'' (17, 0, 0, 1) = Inr False \<and>
   is_within_allowed_hours False ''22:00'' ''06:00'' (5, 59, 59, 999999) = Inr True"
proof -
  have ex: "strptime_HM ''09:00'' = Some (9, 0, 0, 0)" "strptime_HM ''17:00'' = Some (17, 0, 0, 0)"
    "strptime_HM ''22:00'' = Some (22, 0, 0, 0)" "strptime_HM ''06:00'' = Some (6, 0, 0, 0)"
    by (simp_all add: strptime_HM_def is_digit_def digit_val_def)
  show ?thesis
    using ex
      time_window_gate [of "''09:00''" "''17:00''" "(0, 0, 0, 0)" "(9, 0, 0, 0)" "(17, 0, 0, 0)"
        "(17, 0, 0, 1)"]
      time_window_gate [of "''22:00''" "''06:00''" "(0, 0, 0, 0)" "(22, 0, 0, 0)" "(6, 0, 0, 0)"
        "(5, 59, 59, 999999)"]
    by simp
qed

subsection \<open>Disposal\<close>




subsection \<open>What each step leaves unchanged\<close>

text \<open>
  Logging, the indicator and the record of started processes touch neither the files
  nor the timers; the stages of a job are then followed one by one.
\<close>

lemma log_message_frame [simp]:
  "files (log_message m w) = files w" "dirs (log_message m w) = dirs w"
  "timers (log_message m w) = timers w" "calls (log_message m w) = calls w"
  "logged (log_message m w) = logged w @ [m]"
  by (simp_all add: log_message_def)

lemma run_process_frame [simp]:
  "files (run_process c w) = files w" "dirs (run_process c w) = dirs w"
  "timers (run_process c w) = timers w" "logged (run_process c w) = logged w"
  "calls (run_process c w) = calls w @ [c]"
  by (simp_all add: run_process_def)

lemma start_indicator_frame [simp]:
  "files (start_conversion_indicator w) = files w" "dirs (start_conversion_indicator w) = dirs w"
  "timers (start_conversion_indicator w) = timers w" "calls (start_conversion_indicator w) = calls w"
  "logged (start_conversion_indicator w) = logged w"
  by (simp_all add: start_conversion_indicator_def)

lemma end_indicator_frame [simp]:
  "files (end_conversion_indicator w) = files w" "dirs (end_conversion_indicator w) = dirs w"
  "timers (end_conversion_indicator w) = timers w" "calls (end_conversion_indicator w) = calls w"
  "logged (end_conversion_indicator w) = logged w"
  by (simp_all add: end_conversion_indicator_def)

lemma read_output_frame [simp]:
  "files (snd (read_output s i ls w)) = files w"
  "dirs (snd (read_output s i ls w)) = dirs w"
  "timers (snd (read_output s i ls w)) = timers w"
  "calls (snd (read_output s i ls w)) = calls w"
  by (induction ls arbitrary: i w; simp)+

lemma delete_file_frame [simp]:
  "dirs (delete_file e p w) = dirs w" "timers (delete_file e p w) = timers w"
  "calls (delete_file e p w) = calls w"
  by (simp_all add: delete_file_def)

lemma dispose_frame [simp]:
  "dirs (dispose a e p n w) = dirs w" "calls (dispose a e p n w) = calls w"
  by (simp_all add: dispose_def Let_def split: option.split)

lemma build_frame [simp]:
  "files (snd (build_ffmpeg_command a i d w)) = files w"
  "dirs (snd (build_ffmpeg_command a i d w)) = dirs w"
  "timers (snd (build_ffmpeg_command a i d w)) = timers w"
  "calls (snd (build_ffmpeg_command a i d w)) = calls w"
  by (simp_all add: build_ffmpeg_command_def Let_def split: option.split list.split)

lemma build_command_indep:
  "fst (build_ffmpeg_command a i d w) = fst (build_ffmpeg_command a i d w0)"
  by (simp add: build_ffmpeg_command_def Let_def split: option.split list.split)

text \<open>The transcode stage with its steps spelled out on the initial state.\<close>

lemma run_transcode_eq:
  "run_transcode a e p n d i w =
     (let w2 = log_message (Converting n) (snd (build_ffmpeg_command a i d w))
      in case those (fst (build_ffmpeg_command a i d w)) of
           None \<Rightarrow> (ConvertError, log_message (ErrorConverting n) w2)
         | Some argv \<Rightarrow>
             (case transcode_result e of
                PopenNotFound \<Rightarrow> (ToolNotFound, log_message FfmpegNotFound (run_process argv w2))
              | PopenError \<Rightarrow> (ConvertError, log_message (ErrorConverting n) (run_process argv w2))
              | Started lines rc \<Rightarrow>
                  (let w4 = (run_process argv w2)\<lparr>files :=
                                (case transcode_output e of
                                   None \<Rightarrow> files w
                                 | Some c \<Rightarrow> (files w)(d \<mapsto> c))\<rparr>;
                       w5 = snd (read_output (stop_at e) 0 lines w4)
                   in if fst (read_output (stop_at e) 0 lines w4)
                      then (Stopped, log_message (ConversionStopped n) w5)
                      else if rc = 0
                      then (Success, dispose a e p n (log_message (SuccessfullyConverted n) w5))
                      else (TranscodeFailed rc, log_message (ErrorExitCode n rc) w5))))"
  by (simp add: run_transcode_def Let_def split_beta split: option.split popen_result.split)




lemma run_transcode_calls:
  assumes "run_transcode a e p n d i w = (r, w')"
  shows "calls w' = calls w \<or>
         (\<exists>argv. those (fst (build_ffmpeg_command a i d w)) = Some argv \<and> calls w' = calls w @ [argv])"
  using assms unfolding run_transcode_eq Let_def
  by (auto split: option.splits popen_result.splits if_splits)


lemma those_length: "those xs = Some ys \<Longrightarrow> length ys = length xs"
  by (induction xs arbitrary: ys) (auto split: option.splits)

lemma build_command_length:
  "those (fst (build_ffmpeg_command a i d w)) = Some c \<Longrightarrow> 8 \<le> length c"
  by (drule those_length)
     (simp add: build_ffmpeg_command_def Let_def split: if_splits option.splits list.splits)




lemma encode_calls:
  assumes "encode a e p n d i w = (r, w')"
  shows "\<exists>new. calls w' = calls w @ new \<and>
           (\<forall>c\<in>set new. c = audio_command a i \<or> those (fst (build_ffmpeg_command a i d w)) = Some c)"
proof (cases "output_format a = ''mp3''")
  case False
  with assms have "run_transcode a e p n d i w = (r, w')" by (simp add: encode_def)
  from run_transcode_calls [OF this] show ?thesis by auto
next
  case True
  show ?thesis
  proof (cases "audio_probe_result e")
    case NotFound
    with True assms show ?thesis by (auto simp: encode_def Let_def)
  next
    case (Exited code out)
    show ?thesis
    proof (cases "contains out ''codec_type=audio''")
      case False
      with True Exited assms show ?thesis by (auto simp: encode_def Let_def)
    next
      case c: True
      with True Exited assms
      have "run_transcode a e p n d i (run_process (audio_command a i) w) = (r, w')"
        by (simp add: encode_def Let_def)
      from run_transcode_calls [OF this]
      show ?thesis
        using build_command_indep [of a i d "run_process (audio_command a i) w" w] by auto
    qed
  qed
qed





lemma transcode_job_calls_clean:
  assumes "transcode_job a e p n d w = (r, w')" "probe_result e = Exited 0 out"
  shows "\<exists>new. calls w' = calls w @ new \<and>
           (\<forall>c\<in>set new. c = probe_command a p \<or> c = audio_command a p \<or>
                          those (fst (build_ffmpeg_command a p d w)) = Some c)"
proof -
  from assms have "encode a e p n d p
      (log_message (NoCorruptionDetected n) (run_process (probe_command a p) w)) = (r, w')"
    by (simp add: transcode_job_def Let_def)
  from encode_calls [OF this] obtain new where
    "calls w' = calls w @ probe_command a p # new"
    "\<forall>c\<in>set new. c = audio_command a p \<or>
       those (fst (build_ffmpeg_command a p d
         (log_message (NoCorruptionDetected n) (run_process (probe_command a p) w)))) = Some c"
    by auto
  then show ?thesis
    using build_command_indep [of a p d
        "log_message (NoCorruptionDetected n) (run_process (probe_command a p) w)" w]
    by (intro exI [of _ "probe_command a p # new"]) auto
qed

lemma transcode_job_remux_only_if:
  assumes "transcode_job a e p n d w = (r, w')"
    and "preprocess_command a p t \<in> set (drop (length (calls w)) (calls w'))"
  shows "\<exists>code out. probe_result e = Exited code out \<and> code \<noteq> 0"
proof (cases "probe_result e")
  case NotFound
  with assms show ?thesis
    by (auto simp: transcode_job_def Let_def probe_command_def preprocess_command_def)
next
  case (Exited code out)
  show ?thesis
  proof (cases "code = 0")
    case False
    with Exited show ?thesis by simp
  next
    case True
    with Exited assms(1) obtain new where new: "calls w' = calls w @ new"
      "\<forall>c\<in>set new. c = probe_command a p \<or> c = audio_command a p \<or>
                          those (fst (build_ffmpeg_command a p d w)) = Some c"
      using transcode_job_calls_clean by blast
    from assms(2) new(1) have "preprocess_command a p t \<in> set new" by simp
    with new(2) have "preprocess_command a p t = probe_command a p \<or>
        preprocess_command a p t = audio_command a p \<or>
        those (fst (build_ffmpeg_command a p d w)) = Some (preprocess_command a p t)"
      by blast
    then have False
      using build_command_length [of a p d w "preprocess_command a p t"]
      by (auto simp: probe_command_def preprocess_command_def audio_command_def)
    then show ?thesis ..
  qed
qed

lemma transcode_job_both_fail:
  assumes "probe_result e = Exited code out" "code \<noteq> 0"
    "remux_result e = Exited code' out'" "code' \<noteq> 0"
  shows "fst (transcode_job a e p n d w) = PreprocessFailed \<and>
         files (snd (transcode_job a e p n d w)) = files w \<and>
         timers (snd (transcode_job a e p n d w)) = timers w \<and>
         dirs (snd (transcode_job a e p n d w)) = dirs w \<and>
         last (logged (snd (transcode_job a e p n d w))) = ErrorPreprocessing p"
  using assms by (simp add: transcode_job_def Let_def)




lemma copy_job_calls: "calls (snd (copy_job a e p n d w)) = calls w"
  by (simp add: copy_job_def Let_def split: option.split copy_result.split)

lemma copy_job_ok:
  assumes "files w p = Some c" "copy_outcome e = CopyOk"
  shows "copy_job a e p n d w =
     (Success, dispose a e p n (log_message (SuccessfullyCopied n)
        ((log_message (Copying n) w)\<lparr>files := (files w)(d \<mapsto> c)\<rparr>)))"
  using assms by (simp add: copy_job_def Let_def)

text \<open>\<^verbatim>\<open>convert_file\<close> when the gate is open, and when it is not.\<close>


lemma job_start_frame [simp]:
  "files (job_start w) = files w" "dirs (job_start w) = dirs w"
  "timers (job_start w) = timers w" "calls (job_start w) = calls w"
  "logged (job_start w) = logged w"
  by (simp_all add: job_start_def)

lemma exists_job_start [simp]: "exists (job_start w) q = exists w q"
  by (simp add: exists_def)

lemma convert_file_open:
  assumes "is_within_allowed_hours (no_time_restrictions a) (start_time a) (end_time a)
             (current_time e) = Inr True"
  shows "convert_file a e p w =
     (let n = basename p; d = join (destination_folder a) (destination_name a n)
      in if exists w d
         then (SkippedExisting, end_conversion_indicator (log_message (OutputFileExists d) (job_start w)))
         else if copy_only a
         then (fst (copy_job a e p n d (job_start w)),
               end_conversion_indicator (snd (copy_job a e p n d (job_start w))))
         else (fst (transcode_job a e p n d (job_start w)),
               end_conversion_indicator (snd (transcode_job a e p n d (job_start w)))))"
  using assms by (simp add: convert_file_def Let_def split_beta job_start_def exists_def)

lemma convert_file_closed:
  assumes "is_within_allowed_hours (no_time_restrictions a) (start_time a) (end_time a)
             (current_time e) \<noteq> Inr True"
  shows "fst (convert_file a e p w) \<in> {SkippedOutsideWindow} \<union> range Raised \<and>
         files (snd (convert_file a e p w)) = files w \<and>
         timers (snd (convert_file a e p w)) = timers w \<and>
         calls (snd (convert_file a e p w)) = calls w"
  using assms by (auto simp add: convert_file_def Let_def split: sum.splits)

subsection \<open>A whole job, by the way it ends\<close>



lemma exists_None: "\<not> exists w d \<Longrightarrow> files w d = None"
  by (simp add: exists_def)






lemma convert_file_calls:
  "calls (snd (convert_file a e p w)) = calls w \<or>
   (is_within_allowed_hours (no_time_restrictions a) (start_time a) (end_time a)
      (current_time e) = Inr True \<and> \<not> copy_only a \<and>
    snd (convert_file a e p w) =
      end_conversion_indicator (snd (transcode_job a e p (basename p)
        (join (destination_folder a) (destination_name a (basename p))) (job_start w))))"
proof (cases "is_within_allowed_hours (no_time_restrictions a) (start_time a) (end_time a)
             (current_time e) = Inr True")
  case False
  from convert_file_closed [OF False, of p w] show ?thesis by simp
next
  case True
  show ?thesis
    using True by (simp add: convert_file_open [OF True] Let_def copy_job_calls)
qed

lemma convert_file_remux_only_if:
  assumes "preprocess_command a p t \<in> set (drop (length (calls w)) (calls (snd (convert_file a e p w))))"
  shows "\<exists>code out. probe_result e = Exited code out \<and> code \<noteq> 0"
proof -
  define n where "n = basename p"
  define d where "d = join (destination_folder a) (destination_name a n)"
  from convert_file_calls [of a e p w] assms
  have "preprocess_command a p t \<in>
      set (drop (length (calls (job_start w))) (calls (snd (transcode_job a e p n d (job_start w)))))"
    unfolding n_def d_def by auto
  then show ?thesis
    using transcode_job_remux_only_if [of a e p n d "job_start w"
        "fst (transcode_job a e p n d (job_start w))" "snd (transcode_job a e p n d (job_start w))" t]
    by simp
qed

lemma convert_file_calls_clean:
  assumes "probe_result e = Exited 0 out"
    and "c \<in> set (drop (length (calls w)) (calls (snd (convert_file a e p w))))"
  shows "c = probe_command a p \<or> c = audio_command a p \<or>
         those (fst (build_ffmpeg_command a p
           (join (destination_folder a) (destination_name a (basename p))) w)) = Some c"
proof -
  define n where "n = basename p"
  define d where "d = join (destination_folder a) (destination_name a n)"
  from convert_file_calls [of a e p w] assms(2)
  have c: "c \<in> set (drop (length (calls (job_start w)))
              (calls (snd (transcode_job a e p n d (job_start w)))))"
    unfolding n_def d_def by auto
  obtain new where new: "calls (snd (transcode_job a e p n d (job_start w))) = calls (job_start w) @ new"
      "\<forall>c\<in>set new. c = probe_command a p \<or> c = audio_command a p \<or>
                          those (fst (build_ffmpeg_command a p d (job_start w))) = Some c"
    using transcode_job_calls_clean [of a e p n d "job_start w"
        "fst (transcode_job a e p n d (job_start w))" "snd (transcode_job a e p n d (job_start w))" out]
      assms(1) by auto
  from c new(1) have "c \<in> set new" by simp
  with new(2) show ?thesis
    using build_command_indep [of a p d "job_start w" w] unfolding n_def d_def by auto
qed

lemma build_command_input:
  "fst (build_ffmpeg_command a i d w) ! 2 = Some ''-i'' \<and>
   fst (build_ffmpeg_command a i d w) ! 3 = Some i"
  by (simp add: build_ffmpeg_command_def Let_def split: option.split list.split)

lemma convert_file_both_fail:
  assumes gate: "is_within_allowed_hours (no_time_restrictions a) (start_time a) (end_time a)
             (current_time e) = Inr True"
    and dest: "\<not> exists w (join (destination_folder a) (destination_name a (basename p)))"
    and mode: "\<not> copy_only a"
    and probe: "probe_result e = Exited code out" "code \<noteq> 0"
    and remux: "remux_result e = Exited code' out'" "code' \<noteq> 0"
  shows "fst (convert_file a e p w) = PreprocessFailed \<and>
         files (snd (convert_file a e p w)) = files w \<and>
         dirs (snd (convert_file a e p w)) = dirs w \<and>
         timers (snd (convert_file a e p w)) = timers w \<and>
         calls (snd (convert_file a e p w)) =
           calls w @ [probe_command a p,
                      preprocess_command a p (join (temp_dir e) (''fixed_'' @ basename p))] \<and>
         last (logged (snd (convert_file a e p w))) = ErrorPreprocessing p"
  using dest mode probe remux
  by (simp add: convert_file_open [OF gate] Let_def transcode_job_def)

lemma dispose_keeps_copy:
  assumes "files w d = Some c" "files w p = Some c"
  shows "files (dispose a e p n w) d = Some c \<or> d = p"
  using assms
  by (auto simp: dispose_def delete_file_def exists_def Let_def)

lemma convert_file_copy:
  assumes gate: "is_within_allowed_hours (no_time_restrictions a) (start_time a) (end_time a)
             (current_time e) = Inr True"
    and dest: "\<not> exists w (join (destination_folder a) (destination_name a (basename p)))"
    and mode: "copy_only a"
    and src: "files w p = Some c"
    and ok: "copy_outcome e = CopyOk"
  shows "convert_file a e p w =
     (Success,
      end_conversion_indicator
        (dispose a e p (basename p)
           (log_message (SuccessfullyCopied (basename p))
              ((log_message (Copying (basename p)) (job_start w))
                 \<lparr>files := (files w)(join (destination_folder a) (basename p) \<mapsto> c)\<rparr>))))"
proof -
  have dn: "destination_name a (basename p) = basename p"
    using mode by (simp add: destination_name_def)
  show ?thesis
    using dest mode copy_job_ok [of "job_start w" p c e a "basename p"
        "join (destination_folder a) (basename p)"] src ok
    by (simp add: convert_file_open [OF gate] Let_def dn)
qed

subsection \<open>Disposal runs on success only\<close>



subsection \<open>The processes of a job that reaches the transcoder\<close>

lemma run_transcode_calls_exact:
  assumes "those (fst (build_ffmpeg_command a i d w)) = Some argv"
  shows "calls (snd (run_transcode a e p n d i w)) = calls w @ [argv]"
  using assms unfolding run_transcode_eq Let_def
  by (auto split: popen_result.splits)

lemma encode_calls_exact:
  assumes "those (fst (build_ffmpeg_command a i d w)) = Some argv"
    and "output_format a = ''mp3'' \<longrightarrow>
           audio_probe_result e = Exited ac ao \<and> contains ao ''codec_type=audio''"
  shows "calls (snd (encode a e p n d i w)) =
           calls w @ (if output_format a = ''mp3'' then [audio_command a i] else []) @ [argv]"
proof -
  have b: "those (fst (build_ffmpeg_command a i d w0)) = Some argv" for w0
    using assms(1) build_command_indep [of a i d w0 w] by simp
  show ?thesis
  proof (cases "output_format a = ''mp3''")
    case True
    with assms(2) show ?thesis
      by (simp add: encode_def Let_def run_transcode_calls_exact [OF b])
  next
    case False
    then show ?thesis
      by (simp add: encode_def run_transcode_calls_exact [OF b])
  qed
qed

lemma transcode_job_calls_clean_exact:
  assumes "probe_result e = Exited 0 po"
    and "those (fst (build_ffmpeg_command a p d w)) = Some argv"
    and "output_format a = ''mp3'' \<longrightarrow>
           audio_probe_result e = Exited ac ao \<and> contains ao ''codec_type=audio''"
  shows "calls (snd (transcode_job a e p n d w)) =
           calls w @ probe_command a p #
             (if output_format a = ''mp3'' then [audio_command a p] else []) @ [argv]"
proof -
  have b: "those (fst (build_ffmpeg_command a p d w0)) = Some argv" for w0
    using assms(2) build_command_indep [of a p d w0 w] by simp
  show ?thesis
    using assms(1) by (simp add: transcode_job_def Let_def encode_calls_exact [OF b assms(3)])
qed

lemma transcode_job_calls_repaired_exact:
  assumes "probe_result e = Exited pc po" "pc \<noteq> 0" "remux_result e = Exited 0 ro"
    and "those (fst (build_ffmpeg_command a (join (temp_dir e) (''fixed_'' @ n)) d w)) = Some argv"
    and "output_format a = ''mp3'' \<longrightarrow>
           audio_probe_result e = Exited ac ao \<and> contains ao ''codec_type=audio''"
  shows "calls (snd (transcode_job a e p n d w)) =
           calls w @ probe_command a p #
             preprocess_command a p (join (temp_dir e) (''fixed_'' @ n)) #
             (if output_format a = ''mp3''
              then [audio_command a (join (temp_dir e) (''fixed_'' @ n))] else []) @ [argv]"
proof -
  define t where "t = join (temp_dir e) (''fixed_'' @ n)"
  have b: "those (fst (build_ffmpeg_command a t d w0)) = Some argv" for w0
    using assms(4) build_command_indep [of a t d w0 w] unfolding t_def by simp
  have "transcode_job a e p n d w =
      encode a e p n d t
        (run_process (preprocess_command a p t)
           (log_message (Preprocessing n)
              (log_message (CorruptionDetected n) (run_process (probe_command a p) w))))"
    using assms(1-3) by (simp add: transcode_job_def Let_def t_def)
  then have "calls (snd (transcode_job a e p n d w)) =
           calls w @ probe_command a p # preprocess_command a p t #
             (if output_format a = ''mp3'' then [audio_command a t] else []) @ [argv]"
    by (simp add: encode_calls_exact [OF b assms(5)])
  then show ?thesis
    unfolding t_def .
qed

lemma convert_file_calls_clean_exact:
  assumes gate: "is_within_allowed_hours (no_time_restrictions a) (start_time a) (end_time a)
             (current_time e) = Inr True"
    and dest: "\<not> exists w (join (destination_folder a) (destination_name a (basename p)))"
    and mode: "\<not> copy_only a"
    and probe: "probe_result e = Exited 0 po"
    and audio: "output_format a = ''mp3'' \<longrightarrow>
           audio_probe_result e = Exited ac ao \<and> contains ao ''codec_type=audio''"
    and cmd: "those (fst (build_ffmpeg_command a p
           (join (destination_folder a) (destination_name a (basename p))) w)) = Some argv"
  shows "calls (snd (convert_file a e p w)) =
           calls w @ probe_command a p #
             (if output_format a = ''mp3'' then [audio_command a p] else []) @ [argv]"
proof -
  let ?d = "join (destination_folder a) (destination_name a (basename p))"
  have b: "those (fst (build_ffmpeg_command a p ?d (job_start w))) = Some argv"
    using cmd build_command_indep [of a p ?d "job_start w" w] by simp
  show ?thesis
    using dest mode transcode_job_calls_clean_exact [OF probe b audio, of "basename p"]
    by (simp add: convert_file_open [OF gate] Let_def)
qed

lemma convert_file_calls_repaired_exact:
  assumes gate: "is_within_allowed_hours (no_time_restrictions a) (start_time a) (end_time a)
             (current_time e) = Inr True"
    and dest: "\<not> exists w (join (destination_folder a) (destination_name a (basename p)))"
    and mode: "\<not> copy_only a"
    and probe: "probe_result e = Exited pc po" "pc \<noteq> 0"
    and remux: "remux_result e = Exited 0 ro"
    and audio: "output_format a = ''mp3'' \<longrightarrow>
           audio_probe_result e = Exited ac ao \<and> contains ao ''codec_type=audio''"
    and cmd: "those (fst (build_ffmpeg_command a (join (temp_dir e) (''fixed_'' @ basename p))
           (join (destination_folder a) (destination_name a (basename p))) w)) = Some argv"
  shows "calls (snd (convert_file a e p w)) =
           calls w @ probe_command a p #
             preprocess_command a p (join (temp_dir e) (''fixed_'' @ basename p)) #
             (if output_format a = ''mp3''
              then [audio_command a (join (temp_dir e) (''fixed_'' @ basename p))] else []) @
             [argv]"
proof -
  let ?d = "join (destination_folder a) (destination_name a (basename p))"
  let ?t = "join (temp_dir e) (''fixed_'' @ basename p)"
  have b: "those (fst (build_ffmpeg_command a ?t ?d (job_start w))) = Some argv"
    using cmd build_command_indep [of a ?t ?d "job_start w" w] by simp
  show ?thesis
    using dest mode transcode_job_calls_repaired_exact [OF probe remux b audio]
    by (simp add: convert_file_open [OF gate] Let_def)
qed

subsection \<open>Integrity preprocessing\<close>

text \<open>
  Claim C6. The remux is started only after the corruption probe exited with a code
  other than 0. After a clean probe the only processes of the job are the probe, the
  audio stream probe of the source file itself and the transcode command built for
  the source file itself, whose input argument is that file; and a job that passes
  the gate and finds no destination artifact does start them: the probe, for an mp3
  target the audio stream probe, and then the transcoder on the source file. After a
  failed probe and a successful remux the same holds with the repaired temporary file
  in place of the source. When the probe and the remux both fail, the job ends in
  \<open>PreprocessFailed\<close>: the files (the source among them) and the timers are as before,
  no destination artifact exists, and the probe and the remux are the only processes
  that were started.
\<close>

theorem integrity_repair_policy:
  "(preprocess_command a p t \<in> set (drop (length (calls w)) (calls (snd (convert_file a e p w)))) \<longrightarrow>
      (\<exists>code out. probe_result e = Exited code out \<and> code \<noteq> 0)) \<and>
   (probe_result e = Exited 0 po \<and>
    c \<in> set (drop (length (calls w)) (calls (snd (convert_file a e p w)))) \<longrightarrow>
      c = probe_command a p \<or> c = audio_command a p \<or>
      those (fst (build_ffmpeg_command a p
        (join (destination_folder a) (destination_name a (basename p))) w)) = Some c) \<and>
   fst (build_ffmpeg_command a i d w) ! 2 = Some ''-i'' \<and>
   fst (build_ffmpeg_command a i d w) ! 3 = Some i \<and>
   (is_within_allowed_hours (no_time_restrictions a) (start_time a) (end_time a)
      (current_time e) = Inr True \<and>
    \<not> exists w (join (destination_folder a) (destination_name a (basename p))) \<and>
    \<not> copy_only a \<and>
    probe_result e = Exited code out \<and> code \<noteq> 0 \<and>
    remux_result e = Exited code' out' \<and> code' \<noteq> 0 \<longrightarrow>
      fst (convert_file a e p w) = PreprocessFailed \<and>
      files (snd (convert_file a e p w)) = files w \<and>
      timers (snd (convert_file a e p w)) = timers w \<and>
      \<not> exists (snd (convert_file a e p w))
          (join (destination_folder a) (destination_name a (basename p))) \<and>
      calls (snd (convert_file a e p w)) =
        calls w @ [probe_command a p,
                   preprocess_command a p (join (temp_dir e) (''fixed_'' @ basename p))]) \<and>
   (is_within_allowed_hours (no_time_restrictions a) (start_time a) (end_time a)
      (current_time e) = Inr True \<and>
    \<not> exists w (join (destination_folder a) (destination_name a (basename p))) \<and>
    \<not> copy_only a \<and>
    probe_result e = Exited 0 po \<and>
    (output_format a = ''mp3'' \<longrightarrow>
       audio_probe_result e = Exited ac ao \<and> contains ao ''codec_type=audio'') \<and>
    those (fst (build_ffmpeg_command a p
      (join (destination_folder a) (destination_name a (basename p))) w)) = Some argv \<longrightarrow>
      calls (snd (convert_file a e p w)) =
        calls w @ probe_command a p #
          (if output_format a = ''mp3'' then [audio_command a p] else []) @ [argv]) \<and>
   (is_within_allowed_hours (no_time_restrictions a) (start_time a) (end_time a)
      (current_time e) = Inr True \<and>
    \<not> exists w (join (destination_folder a) (destination_name a (basename p))) \<and>
    \<not> copy_only a \<and>
    probe_result e = Exited code out \<and> code \<noteq> 0 \<and> remux_result e = Exited 0 ro \<and>
    (output_format a = ''mp3'' \<longrightarrow>
       audio_probe_result e = Exited ac ao \<and> contains ao ''codec_type=audio'') \<and>
    those (fst (build_ffmpeg_command a (join (temp_dir e) (''fixed_'' @ basename p))
      (join (destination_folder a) (destination_name a (basename p))) w)) = Some argv' \<longrightarrow>
      calls (snd (convert_file a e p w)) =
        calls w @ probe_command a p #
          preprocess_command a p (join (temp_dir e) (''fixed_'' @ basename p)) #
          (if output_format a = ''mp3''
           then [audio_command a (join (temp_dir e) (''fixed_'' @ basename p))] else []) @
          [argv'])"
proof -
  have one: "preprocess_command a p t \<in>
        set (drop (length (calls w)) (calls (snd (convert_file a e p w)))) \<longrightarrow>
      (\<exists>code out. probe_result e = Exited code out \<and> code \<noteq> 0)"
    using convert_file_remux_only_if [of a p t w e] by blast
  have two: "probe_result e = Exited 0 po \<and>
    c \<in> set (drop (length (calls w)) (calls (snd (convert_file a e p w)))) \<longrightarrow>
      c = probe_command a p \<or> c = audio_command a p \<or>
      those (fst (build_ffmpeg_command a p
        (join (destination_folder a) (destination_name a (basename p))) w)) = Some c"
    using convert_file_calls_clean [of e po c w a p] by blast
  have three: "fst (build_ffmpeg_command a i d w) ! 2 = Some ''-i''"
    "fst (build_ffmpeg_command a i d w) ! 3 = Some i"
    using build_command_input [of a i d w] by simp_all
  have four: "is_within_allowed_hours (no_time_restrictions a) (start_time a) (end_time a)
      (current_time e) = Inr True \<and>
    \<not> exists w (join (destination_folder a) (destination_name a (basename p))) \<and>
    \<not> copy_only a \<and>
    probe_result e = Exited code out \<and> code \<noteq> 0 \<and>
    remux_result e = Exited code' out' \<and> code' \<noteq> 0 \<longrightarrow>
      fst (convert_file a e p w) = PreprocessFailed \<and>
      files (snd (convert_file a e p w)) = files w \<and>
      timers (snd (convert_file a e p w)) = timers w \<and>
      \<not> exists (snd (convert_file a e p w))
          (join (destination_folder a) (destination_name a (basename p))) \<and>
      calls (snd (convert_file a e p w)) =
        calls w @ [probe_command a p,
                   preprocess_command a p (join (temp_dir e) (''fixed_'' @ basename p))]"
  proof (intro impI, elim conjE)
    assume h: "is_within_allowed_hours (no_time_restrictions a) (start_time a) (end_time a)
          (current_time e) = Inr True"
      "\<not> exists w (join (destination_folder a) (destination_name a (basename p)))"
      "\<not> copy_only a"
      "probe_result e = Exited code out" "code \<noteq> 0"
      "remux_result e = Exited code' out'" "code' \<noteq> 0"
    from convert_file_both_fail [OF h] h(2)
    show "fst (convert_file a e p w) = PreprocessFailed \<and>
      files (snd (convert_file a e p w)) = files w \<and>
      timers (snd (convert_file a e p w)) = timers w \<and>
      \<not> exists (snd (convert_file a e p w))
          (join (destination_folder a) (destination_name a (basename p))) \<and>
      calls (snd (convert_file a e p w)) =
        calls w @ [probe_command a p,
                   preprocess_command a p (join (temp_dir e) (''fixed_'' @ basename p))]"
      by (simp add: exists_def)
  qed
  have five: "is_within_allowed_hours (no_time_restrictions a) (start_time a) (end_time a)
      (current_time e) = Inr True \<and>
    \<not> exists w (join (destination_folder a) (destination_name a (basename p))) \<and>
    \<not> copy_only a \<and>
    probe_result e = Exited 0 po \<and>
    (output_format a = ''mp3'' \<longrightarrow>
       audio_probe_result e = Exited ac ao \<and> contains ao ''codec_type=audio'') \<and>
    those (fst (build_ffmpeg_command a p
      (join (destination_folder a) (destination_name a (basename p))) w)) = Some argv \<longrightarrow>
      calls (snd (convert_file a e p w)) =
        calls w @ probe_command a p #
          (if output_format a = ''mp3'' then [audio_command a p] else []) @ [argv]"
  proof (intro impI, elim conjE)
    assume h: "is_within_allowed_hours (no_time_restrictions a) (start_time a) (end_time a)
          (current_time e) = Inr True"
      "\<not> exists w (join (destination_folder a) (destination_name a (basename p)))"
      "\<not> copy_only a"
      "probe_result e = Exited 0 po"
      "output_format a = ''mp3'' \<longrightarrow>
         audio_probe_result e = Exited ac ao \<and> contains ao ''codec_type=audio''"
      "those (fst (build_ffmpeg_command a p
         (join (destination_folder a) (destination_name a (basename p))) w)) = Some argv"
    from convert_file_calls_clean_exact [OF h]
    show "calls (snd (convert_file a e p w)) =
        calls w @ probe_command a p #
          (if output_format a = ''mp3'' then [audio_command a p] else []) @ [argv]" .
  qed
  have six: "is_within_allowed_hours (no_time_restrictions a) (start_time a) (end_time a)
      (current_time e) = Inr True \<and>
    \<not> exists w (join (destination_folder a) (destination_name a (basename p))) \<and>
    \<not> copy_only a \<and>
    probe_result e = Exited code out \<and> code \<noteq> 0 \<and> remux_result e = Exited 0 ro \<and>
    (output_format a = ''mp3'' \<longrightarrow>
       audio_probe_result e = Exited ac ao \<and> contains ao ''codec_type=audio'') \<and>
    those (fst (build_ffmpeg_command a (join (temp_dir e) (''fixed_'' @ basename p))
      (join (destination_folder a) (destination_name a (basename p))) w)) = Some argv' \<longrightarrow>
      calls (snd (convert_file a e p w)) =
        calls w @ probe_command a p #
          preprocess_command a p (join (temp_dir e) (''fixed_'' @ basename p)) #
          (if output_format a = ''mp3''
           then [audio_command a (join (temp_dir e) (''fixed_'' @ basename p))] else []) @
          [argv']"
  proof (intro impI, elim conjE)
    assume h: "is_within_allowed_hours (no_time_restrictions a) (start_time a) (end_time a)
          (current_time e) = Inr True"
      "\<not> exists w (join (destination_folder a) (destination_name a (basename p)))"
      "\<not> copy_only a"
      "probe_result e = Exited code out" "code \<noteq> 0" "remux_result e = Exited 0 ro"
      "output_format a = ''mp3'' \<longrightarrow>
         audio_probe_result e = Exited ac ao \<and> contains ao ''codec_type=audio''"
      "those (fst (build_ffmpeg_command a (join (temp_dir e) (''fixed_'' @ basename p))
         (join (destination_folder a) (destination_name a (basename p))) w)) = Some argv'"
    from convert_file_calls_repaired_exact [OF h]
    show "calls (snd (convert_file a e p w)) =
        calls w @ probe_command a p #
          preprocess_command a p (join (temp_dir e) (''fixed_'' @ basename p)) #
          (if output_format a = ''mp3''
           then [audio_command a (join (temp_dir e) (''fixed_'' @ basename p))] else []) @
          [argv']" .
  qed
  show ?thesis
    by (intro conjI one two three four five six)
qed

theorem integrity_repair_policy_witness:
  "fst (convert_file example_app
      (example_env\<lparr>probe_result := Exited 1 [], remux_result := Exited 1 []\<rparr>)
      ''/src/b.mp4'' example_world) = PreprocessFailed \<and>
   files (snd (convert_file example_app
      (example_env\<lparr>probe_result := Exited 1 [], remux_result := Exited 1 []\<rparr>)
      ''/src/b.mp4'' example_world)) = files example_world \<and>
   calls (snd (convert_file example_app
      (example_env\<lparr>probe_result := Exited 1 [], remux_result := Exited 1 []\<rparr>)
      ''/src/b.mp4'' example_world)) =
     [[''/app/ffprobe.exe'', ''-v'', ''error'', ''-i'', ''/src/b.mp4''],
      [''/app/ffmpeg.exe'', ''-i'', ''/src/b.mp4'', ''-c'', ''copy'', ''/tmp/job/fixed_b.mp4'']] \<and>
   calls (snd (convert_file example_app example_env ''/src/b.mp4'' example_world)) =
     [[''/app/ffprobe.exe'', ''-v'', ''error'', ''-i'', ''/src/b.mp4''],
      [''/app/ffmpeg.exe'', ''-y'', ''-i'', ''/src/b.mp4'', ''-vcodec'', ''libx264'',
       ''-acodec'', ''aac'', ''/dst/b.mov'']] \<and>
   calls (snd (convert_file example_app (example_env\<lparr>probe_result := Exited 1 []\<rparr>)
      ''/src/b.mp4'' example_world)) =
     [[''/app/ffprobe.exe'', ''-v'', ''error'', ''-i'', ''/src/b.mp4''],
      [''/app/ffmpeg.exe'', ''-i'', ''/src/b.mp4'', ''-c'', ''copy'', ''/tmp/job/fixed_b.mp4''],
      [''/app/ffmpeg.exe'', ''-y'', ''-i'', ''/tmp/job/fixed_b.mp4'', ''-vcodec'', ''libx264'',
       ''-acodec'', ''aac'', ''/dst/b.mov'']]"
proof -
  let ?e = "example_env\<lparr>probe_result := Exited 1 [], remux_result := Exited 1 []\<rparr>"
  let ?r = "example_env\<lparr>probe_result := Exited 1 []\<rparr>"
  let ?p = "''/src/b.mp4''"
  let ?d = "join (destination_folder example_app) (destination_name example_app (basename ?p))"
  let ?t = "''/tmp/job/fixed_b.mp4''"
  let ?probe = "[''/app/ffprobe.exe'', ''-v'', ''error'', ''-i'', ''/src/b.mp4'']"
  let ?remux = "[''/app/ffmpeg.exe'', ''-i'', ''/src/b.mp4'', ''-c'', ''copy'',
      ''/tmp/job/fixed_b.mp4'']"
  let ?clean = "[''/app/ffmpeg.exe'', ''-y'', ''-i'', ''/src/b.mp4'', ''-vcodec'', ''libx264'',
      ''-acodec'', ''aac'', ''/dst/b.mov'']"
  let ?fixed = "[''/app/ffmpeg.exe'', ''-y'', ''-i'', ''/tmp/job/fixed_b.mp4'', ''-vcodec'',
      ''libx264'', ''-acodec'', ''aac'', ''/dst/b.mov'']"
  have gate: "is_within_allowed_hours (no_time_restrictions example_app) (start_time example_app)
      (end_time example_app) (current_time ?e) = Inr True"
    "is_within_allowed_hours (no_time_restrictions example_app) (start_time example_app)
      (end_time example_app) (current_time example_env) = Inr True"
    "is_within_allowed_hours (no_time_restrictions example_app) (start_time example_app)
      (end_time example_app) (current_time ?r) = Inr True"
    by (simp_all add: example_app_def is_within_allowed_hours_def)
  have name: "basename ?p = ''b.mp4''"
    by (simp add: basename_def rfind_def)
  have d: "?d = ''/dst/b.mov''"
    by (simp add: name example_app_def join_def endswith_def destination_name_def
        splitext_def rfind_def)
  have dest: "\<not> exists example_world ?d"
    unfolding d by (simp add: example_world_def exists_def)
  have app: "\<not> copy_only example_app" "output_format example_app \<noteq> ''mp3''"
    by (simp_all add: example_app_def)
  have env: "probe_result ?e = Exited 1 []" "remux_result ?e = Exited 1 []"
    "temp_dir ?e = ''/tmp/job''" "probe_result example_env = Exited 0 []"
    "probe_result ?r = Exited 1 []" "remux_result ?r = Exited 0 []" "temp_dir ?r = ''/tmp/job''"
    by (simp_all add: example_env_def)
  have t: "join ''/tmp/job'' ''fixed_b.mp4'' = ?t"
    by (simp add: join_def endswith_def)
  have cmds: "probe_command example_app ?p = ?probe"
    "preprocess_command example_app ?p ?t = ?remux" "calls example_world = []"
    by (simp_all add: probe_command_def preprocess_command_def resource_path_def join_def
        endswith_def example_app_def example_world_def)
  have built: "those (fst (build_ffmpeg_command example_app ?p ?d example_world)) = Some ?clean"
    "those (fst (build_ffmpeg_command example_app ?t ?d example_world)) = Some ?fixed"
    unfolding d
    by (simp_all add: build_ffmpeg_command_def get_gpu_encoder_def resource_path_def join_def
        endswith_def example_app_def)
  have fail: "is_within_allowed_hours (no_time_restrictions example_app) (start_time example_app)
      (end_time example_app) (current_time ?e) = Inr True \<and>
    \<not> exists example_world ?d \<and> \<not> copy_only example_app \<and>
    probe_result ?e = Exited 1 [] \<and> (1::int) \<noteq> 0 \<and>
    remux_result ?e = Exited 1 [] \<and> (1::int) \<noteq> 0"
    using gate(1) dest app(1) env(1,2) by simp
  note f = integrity_repair_policy [where a = example_app and e = ?e and p = ?p
      and w = example_world and code = 1 and out = "[]" and code' = 1 and out' = "[]"]
  from f fail have f1: "fst (convert_file example_app ?e ?p example_world) = PreprocessFailed"
    and f2: "files (snd (convert_file example_app ?e ?p example_world)) = files example_world"
    and f3: "calls (snd (convert_file example_app ?e ?p example_world)) =
      calls example_world @ [probe_command example_app ?p,
        preprocess_command example_app ?p (join (temp_dir ?e) (''fixed_'' @ basename ?p))]"
    by blast+
  have clean: "is_within_allowed_hours (no_time_restrictions example_app) (start_time example_app)
      (end_time example_app) (current_time example_env) = Inr True \<and>
    \<not> exists example_world ?d \<and> \<not> copy_only example_app \<and>
    probe_result example_env = Exited 0 [] \<and>
    (output_format example_app = ''mp3'' \<longrightarrow>
       audio_probe_result example_env = Exited 0 [] \<and> contains [] ''codec_type=audio'') \<and>
    those (fst (build_ffmpeg_command example_app ?p ?d example_world)) = Some ?clean"
    using gate(2) dest app env(4) built(1) by simp
  note c = integrity_repair_policy [where a = example_app and e = example_env and p = ?p
      and w = example_world and po = "[]" and ac = 0 and ao = "[]" and argv = ?clean]
  from c clean have c1: "calls (snd (convert_file example_app example_env ?p example_world)) =
      calls example_world @ probe_command example_app ?p #
        (if output_format example_app = ''mp3'' then [audio_command example_app ?p] else []) @
        [?clean]"
    by blast
  have repaired: "is_within_allowed_hours (no_time_restrictions example_app)
      (start_time example_app) (end_time example_app) (current_time ?r) = Inr True \<and>
    \<not> exists example_world ?d \<and> \<not> copy_only example_app \<and>
    probe_result ?r = Exited 1 [] \<and> (1::int) \<noteq> 0 \<and> remux_result ?r = Exited 0 [] \<and>
    (output_format example_app = ''mp3'' \<longrightarrow>
       audio_probe_result ?r = Exited 0 [] \<and> contains [] ''codec_type=audio'') \<and>
    those (fst (build_ffmpeg_command example_app (join (temp_dir ?r) (''fixed_'' @ basename ?p))
      ?d example_world)) = Some ?fixed"
    using gate(3) dest app env(5-7) built(2) by (simp add: name t)
  note r = integrity_repair_policy [where a = example_app and e = ?r and p = ?p
      and w = example_world and code = 1 and out = "[]" and ro = "[]" and ac = 0 and ao = "[]"
      and argv' = ?fixed]
  from r repaired have r1: "calls (snd (convert_file example_app ?r ?p example_world)) =
      calls example_world @ probe_command example_app ?p #
        preprocess_command example_app ?p (join (temp_dir ?r) (''fixed_'' @ basename ?p)) #
        (if output_format example_app = ''mp3''
         then [audio_command example_app (join (temp_dir ?r) (''fixed_'' @ basename ?p))]
         else []) @ [?fixed]"
    by blast
  show ?thesis
    using f1 f2 f3 c1 r1 app(2) by (simp add: name t env(3,7) cmds)
qed

subsection \<open>Copy-only mode\<close>

text \<open>
  Claim C10. In copy-only mode a job starts no process at all, whatever the
  surroundings answer: neither the corruption probe nor the remux runs, also for a
  corrupted input. When the gate is open, the destination artifact does not exist yet
  and the copy of an existing source file succeeds, the job ends in \<open>Success\<close>, its
  final state is the disposal applied to the state in which the destination holds the
  bytes of the source, and after the disposal the destination still holds these bytes.
\<close>

theorem copy_only_skips_integrity:
  "(copy_only a \<longrightarrow> calls (snd (convert_file a e p w)) = calls w) \<and>
   (copy_only a \<and>
    is_within_allowed_hours (no_time_restrictions a) (start_time a) (end_time a)
      (current_time e) = Inr True \<and>
    \<not> exists w (join (destination_folder a) (destination_name a (basename p))) \<and>
    files w p = Some c \<and> copy_outcome e = CopyOk \<longrightarrow>
      convert_file a e p w =
        (Success,
         end_conversion_indicator
           (dispose a e p (basename p)
              (log_message (SuccessfullyCopied (basename p))
                 ((log_message (Copying (basename p)) (job_start w))
                    \<lparr>files := (files w)(join (destination_folder a) (basename p) \<mapsto> c)\<rparr>)))) \<and>
      files (snd (convert_file a e p w)) (join (destination_folder a) (basename p)) = Some c)"
proof -
  have one: "copy_only a \<longrightarrow> calls (snd (convert_file a e p w)) = calls w"
    using convert_file_calls [of a e p w] by blast
  have two: "copy_only a \<and>
    is_within_allowed_hours (no_time_restrictions a) (start_time a) (end_time a)
      (current_time e) = Inr True \<and>
    \<not> exists w (join (destination_folder a) (destination_name a (basename p))) \<and>
    files w p = Some c \<and> copy_outcome e = CopyOk \<longrightarrow>
      convert_file a e p w =
        (Success,
         end_conversion_indicator
           (dispose a e p (basename p)
              (log_message (SuccessfullyCopied (basename p))
                 ((log_message (Copying (basename p)) (job_start w))
                    \<lparr>files := (files w)(join (destination_folder a) (basename p) \<mapsto> c)\<rparr>)))) \<and>
      files (snd (convert_file a e p w)) (join (destination_folder a) (basename p)) = Some c"
  proof (intro impI, elim conjE)
    assume h: "copy_only a"
      "is_within_allowed_hours (no_time_restrictions a) (start_time a) (end_time a)
         (current_time e) = Inr True"
      "\<not> exists w (join (destination_folder a) (destination_name a (basename p)))"
      "files w p = Some c" "copy_outcome e = CopyOk"
    let ?d = "join (destination_folder a) (basename p)"
    let ?w = "log_message (SuccessfullyCopied (basename p))
                 ((log_message (Copying (basename p)) (job_start w))
                    \<lparr>files := (files w)(?d \<mapsto> c)\<rparr>)"
    have eq: "convert_file a e p w =
        (Success, end_conversion_indicator (dispose a e p (basename p) ?w))"
      using convert_file_copy [OF h(2,3,1,4,5)] .
    have "destination_name a (basename p) = basename p"
      using h(1) by (simp add: destination_name_def)
    with h(3,4) have pd: "?d \<noteq> p" by (auto simp: exists_def)
    then have "files ?w ?d = Some c" "files ?w p = Some c"
      using h(4) by simp_all
    from dispose_keeps_copy [OF this, of a e "basename p"] pd
    have "files (dispose a e p (basename p) ?w) ?d = Some c" by simp
    with eq show "convert_file a e p w =
        (Success, end_conversion_indicator (dispose a e p (basename p) ?w)) \<and>
      files (snd (convert_file a e p w)) ?d = Some c"
      by simp
  qed
  show ?thesis
    by (intro conjI one two)
qed

theorem copy_only_skips_integrity_witness:
  "calls (snd (convert_file (example_app\<lparr>copy_only := True\<rparr>)
      (example_env\<lparr>probe_result := Exited 1 []\<rparr>) ''/src/b.mp4'' example_world)) = [] \<and>
   fst (convert_file (example_app\<lparr>copy_only := True\<rparr>)
      (example_env\<lparr>probe_result := Exited 1 []\<rparr>) ''/src/b.mp4'' example_world) = Success \<and>
   files (snd (convert_file (example_app\<lparr>copy_only := True\<rparr>)
      (example_env\<lparr>probe_result := Exited 1 []\<rparr>) ''/src/b.mp4'' example_world))
      ''/dst/b.mp4'' = Some ''B''"
proof -
  let ?a = "example_app\<lparr>copy_only := True\<rparr>"
  let ?e = "example_env\<lparr>probe_result := Exited 1 []\<rparr>"
  let ?p = "''/src/b.mp4''"
  have gate: "is_within_allowed_hours (no_time_restrictions ?a) (start_time ?a)
      (end_time ?a) (current_time ?e) = Inr True"
    by (simp add: example_app_def is_within_allowed_hours_def)
  have name: "basename ?p = ''b.mp4''"
    by (simp add: basename_def rfind_def)
  have dest: "\<not> exists example_world
      (join (destination_folder ?a) (destination_name ?a (basename ?p)))"
    by (simp add: name example_app_def example_world_def exists_def join_def endswith_def
        destination_name_def)
  have d: "join (destination_folder example_app) ''b.mp4'' = ''/dst/b.mp4''"
    by (simp add: example_app_def join_def endswith_def)
  have rest: "copy_only ?a" "copy_outcome ?e = CopyOk" "files example_world ?p = Some ''B''"
    "calls example_world = []"
    by (simp_all add: example_env_def example_world_def)
  note t = copy_only_skips_integrity [where a = ?a and e = ?e and p = ?p and w = example_world
      and c = "''B''"]
  have hyp: "copy_only ?a \<and>
    is_within_allowed_hours (no_time_restrictions ?a) (start_time ?a) (end_time ?a)
      (current_time ?e) = Inr True \<and>
    \<not> exists example_world (join (destination_folder ?a) (destination_name ?a (basename ?p))) \<and>
    files example_world ?p = Some ''B'' \<and> copy_outcome ?e = CopyOk"
    using gate dest rest by blast
  from t hyp have "calls (snd (convert_file ?a ?e ?p example_world)) = calls example_world"
    by blast
  moreover from t hyp have "fst (convert_file ?a ?e ?p example_world) = Success"
    by (metis fst_conv)
  moreover from t hyp
  have "files (snd (convert_file ?a ?e ?p example_world))
      (join (destination_folder ?a) (basename ?p)) = Some ''B''"
    by blast
  ultimately show ?thesis
    using rest(4) by (simp add: name d)
qed

subsection \<open>The scan\<close>

text \<open>
  Claim C4. For every listing of the source folder the scan yields, in the order of
  the listing, the path of each entry whose lower-cased name ends in a supported
  extension and whose destination artifact (the name itself in copy-only mode, else
  the stem of \<^verbatim>\<open>os.path.splitext\<close> with the output extension) does not exist in the
  destination folder. \<^verbatim>\<open>convert_videos\<close> submits exactly these paths when both folders
  exist, the gate is open, the listing succeeds and no stop is requested. With
  \<^verbatim>\<open>a.mp4\<close> and \<^verbatim>\<open>b.mp4\<close> in the source folder, output format mov and \<^verbatim>\<open>a.mov\<close> in the
  destination folder, the scan yields \<^verbatim>\<open>b.mp4\<close> only.
\<close>

theorem scan_finds_unconverted:
  "new_files a listing w =
     map (join (source_folder a))
       (filter (\<lambda>f. endswith_any (lower f) supported_formats \<and>
                    \<not> exists w (join (destination_folder a)
                         (if copy_only a then f else fst (splitext f) @ ''.'' @ output_format a)))
          listing) \<and>
   (exists w (source_folder a) \<and> exists w (destination_folder a) \<and>
    is_within_allowed_hours (no_time_restrictions a) (start_time a) (end_time a)
      (current_time e) = Inr True \<and>
    listdir_result e = Some listing \<and> stop_at e = None \<longrightarrow>
      fst (convert_videos a e w) = Inr (new_files a listing w)) \<and>
   new_files example_app [''a.mp4'', ''b.mp4''] example_world = [''/src/b.mp4'']"
proof -
  have one: "new_files a listing w =
     map (join (source_folder a))
       (filter (\<lambda>f. endswith_any (lower f) supported_formats \<and>
                    \<not> exists w (join (destination_folder a)
                         (if copy_only a then f else fst (splitext f) @ ''.'' @ output_format a)))
          listing)"
    by (simp add: new_files_def destination_name_def)
  have two: "exists w (source_folder a) \<and> exists w (destination_folder a) \<and>
    is_within_allowed_hours (no_time_restrictions a) (start_time a) (end_time a)
      (current_time e) = Inr True \<and>
    listdir_result e = Some listing \<and> stop_at e = None \<longrightarrow>
      fst (convert_videos a e w) = Inr (new_files a listing w)"
    by (simp add: convert_videos_def Let_def new_files_def exists_def)
  have three: "new_files example_app [''a.mp4'', ''b.mp4''] example_world = [''/src/b.mp4'']"
    by (simp add: new_files_def example_app_def example_world_def exists_def join_def
        endswith_def endswith_any_def supported_formats_def lower_def char_lower_def
        destination_name_def splitext_def rfind_def)
  show ?thesis
    by (intro conjI one two three)
qed

theorem scan_finds_unconverted_witness:
  "fst (convert_videos example_app example_env example_world) = Inr [''/src/b.mp4'']"
proof -
  have h: "exists example_world (source_folder example_app)"
    "exists example_world (destination_folder example_app)"
    "is_within_allowed_hours (no_time_restrictions example_app) (start_time example_app)
       (end_time example_app) (current_time example_env) = Inr True"
    "listdir_result example_env = Some [''a.mp4'', ''b.mp4'']" "stop_at example_env = None"
    by (simp_all add: example_app_def example_env_def example_world_def exists_def
        is_within_allowed_hours_def)
  note t = scan_finds_unconverted [where a = example_app and e = example_env
      and w = example_world and listing = "[''a.mp4'', ''b.mp4'']"]
  from t h have "fst (convert_videos example_app example_env example_world) =
      Inr (new_files example_app [''a.mp4'', ''b.mp4''] example_world)"
    by blast
  moreover from t have "new_files example_app [''a.mp4'', ''b.mp4''] example_world = [''/src/b.mp4'']"
    by blast
  ultimately show ?thesis by simp
qed

subsection \<open>The encoder capability probe and the transcode command\<close>

text \<open>
  Claim C5, at the failing input. When the transcoder binary is missing,
  \<^verbatim>\<open>subprocess.run\<close> raises \<^verbatim>\<open>FileNotFoundError\<close>, which \<^verbatim>\<open>get_supported_encoders\<close>
  does not catch: the probe raises instead of returning the empty mapping. (A
  non-zero exit code does give the empty mapping.)
\<close>

theorem encoder_probe_missing_tool:
  "get_supported_encoders NotFound = Inl FileNotFoundError \<and>
   get_supported_encoders (Exited 1 []) = Inr []"
  by (simp add: get_supported_encoders_def)

text \<open>
  Claim C7. For the mp3 target, the only audio-only format, the command has the flag
  \<^verbatim>\<open>-vn\<close> and no video codec, and its audio codec is the configured one, or
  \<^verbatim>\<open>libmp3lame\<close> when none is configured. For every other target, with the encoder
  dictionary that the capability probe made of the transcoder's listing, the video
  codec is \<^verbatim>\<open>h264_nvenc\<close> when an NVENC encoder is listed, else \<^verbatim>\<open>h264_qsv\<close> when a QSV
  encoder is listed, else \<^verbatim>\<open>h264_amf\<close> when an AMF encoder is listed, else the
  configured video codec; the audio codec is the configured one. With an empty
  dictionary the configured codecs are used as they are.
\<close>

theorem command_rules:
  "(output_format a = ''mp3'' \<longrightarrow>
      fst (build_ffmpeg_command a i d w) =
        [Some (resource_path a ''ffmpeg.exe''), Some ''-y'', Some ''-i'', Some i, Some ''-vn'',
         Some ''-acodec'', Some (if audio_codec a \<noteq> [] then audio_codec a else ''libmp3lame''),
         Some d]) \<and>
   (output_format a \<noteq> ''mp3'' \<and> get_supported_encoders (Exited 0 out) = Inr (gpu_encoders a) \<longrightarrow>
      fst (build_ffmpeg_command a i d w) =
        [Some (resource_path a ''ffmpeg.exe''), Some ''-y'', Some ''-i'', Some i,
         Some ''-vcodec'',
         (if contains (lower out) ''h264_nvenc'' \<or> contains (lower out) ''hevc_nvenc''
          then Some ''h264_nvenc''
          else if contains (lower out) ''h264_qsv'' \<or> contains (lower out) ''hevc_qsv''
          then Some ''h264_qsv''
          else if contains (lower out) ''h264_amf'' \<or> contains (lower out) ''hevc_amf''
          then Some ''h264_amf''
          else video_codec a),
         Some ''-acodec'', Some (audio_codec a), Some d]) \<and>
   (output_format a \<noteq> ''mp3'' \<and> gpu_encoders a = [] \<longrightarrow>
      fst (build_ffmpeg_command a i d w) =
        [Some (resource_path a ''ffmpeg.exe''), Some ''-y'', Some ''-i'', Some i,
         Some ''-vcodec'', video_codec a, Some ''-acodec'', Some (audio_codec a), Some d])"
proof -
  have one: "output_format a = ''mp3'' \<longrightarrow>
      fst (build_ffmpeg_command a i d w) =
        [Some (resource_path a ''ffmpeg.exe''), Some ''-y'', Some ''-i'', Some i, Some ''-vn'',
         Some ''-acodec'', Some (if audio_codec a \<noteq> [] then audio_codec a else ''libmp3lame''),
         Some d]"
    by (simp add: build_ffmpeg_command_def)
  have two: "output_format a \<noteq> ''mp3'' \<and>
      get_supported_encoders (Exited 0 out) = Inr (gpu_encoders a) \<longrightarrow>
      fst (build_ffmpeg_command a i d w) =
        [Some (resource_path a ''ffmpeg.exe''), Some ''-y'', Some ''-i'', Some i,
         Some ''-vcodec'',
         (if contains (lower out) ''h264_nvenc'' \<or> contains (lower out) ''hevc_nvenc''
          then Some ''h264_nvenc''
          else if contains (lower out) ''h264_qsv'' \<or> contains (lower out) ''hevc_qsv''
          then Some ''h264_qsv''
          else if contains (lower out) ''h264_amf'' \<or> contains (lower out) ''hevc_amf''
          then Some ''h264_amf''
          else video_codec a),
         Some ''-acodec'', Some (audio_codec a), Some d]"
  proof (intro impI, elim conjE)
    assume f: "output_format a \<noteq> ''mp3''"
      and g: "get_supported_encoders (Exited 0 out) = Inr (gpu_encoders a)"
    let ?nv = "contains (lower out) ''h264_nvenc'' \<or> contains (lower out) ''hevc_nvenc''"
    let ?qsv = "contains (lower out) ''h264_qsv'' \<or> contains (lower out) ''hevc_qsv''"
    let ?amf = "contains (lower out) ''h264_amf'' \<or> contains (lower out) ''hevc_amf''"
    from g have G: "gpu_encoders a =
        (if ?nv then [(''nvidia'', [(''h264'', ''h264_nvenc''), (''hevc'', ''hevc_nvenc'')])] else []) @
        (if ?qsv then [(''intel'', [(''h264'', ''h264_qsv''), (''hevc'', ''hevc_qsv'')])] else []) @
        (if ?amf then [(''amd'', [(''h264'', ''h264_amf''), (''hevc'', ''hevc_amf'')])] else [])"
      by (simp add: get_supported_encoders_def Let_def)
    have enc: "get_gpu_encoder a =
        (if ?nv then Some [(''h264'', ''h264_nvenc''), (''hevc'', ''hevc_nvenc'')]
         else if ?qsv then Some [(''h264'', ''h264_qsv''), (''hevc'', ''hevc_qsv'')]
         else if ?amf then Some [(''h264'', ''h264_amf''), (''hevc'', ''hevc_amf'')]
         else None)"
      unfolding get_gpu_encoder_def G
      by (cases ?nv; cases ?qsv; cases ?amf) simp_all
    show "fst (build_ffmpeg_command a i d w) =
        [Some (resource_path a ''ffmpeg.exe''), Some ''-y'', Some ''-i'', Some i,
         Some ''-vcodec'',
         (if ?nv then Some ''h264_nvenc''
          else if ?qsv then Some ''h264_qsv''
          else if ?amf then Some ''h264_amf''
          else video_codec a),
         Some ''-acodec'', Some (audio_codec a), Some d]"
      using f unfolding build_ffmpeg_command_def enc
      by (cases ?nv; cases ?qsv; cases ?amf) (simp_all add: Let_def)
  qed
  have three: "output_format a \<noteq> ''mp3'' \<and> gpu_encoders a = [] \<longrightarrow>
      fst (build_ffmpeg_command a i d w) =
        [Some (resource_path a ''ffmpeg.exe''), Some ''-y'', Some ''-i'', Some i,
         Some ''-vcodec'', video_codec a, Some ''-acodec'', Some (audio_codec a), Some d]"
    by (simp add: build_ffmpeg_command_def get_gpu_encoder_def)
  show ?thesis
    by (intro conjI one two three)
qed

theorem command_rules_witness:
  "fst (build_ffmpeg_command
      (example_app\<lparr>gpu_encoders :=
         [(''intel'', [(''h264'', ''h264_qsv''), (''hevc'', ''hevc_qsv'')]),
          (''amd'', [(''h264'', ''h264_amf''), (''hevc'', ''hevc_amf'')])]\<rparr>)
      ''/src/b.mp4'' ''/dst/b.mov'' example_world) =
     [Some ''/app/ffmpeg.exe'', Some ''-y'', Some ''-i'', Some ''/src/b.mp4'', Some ''-vcodec'',
      Some ''h264_qsv'', Some ''-acodec'', Some ''aac'', Some ''/dst/b.mov''] \<and>
   fst (build_ffmpeg_command (example_app\<lparr>output_format := ''mp3'', audio_codec := []\<rparr>)
      ''/src/b.mp4'' ''/dst/b.mp3'' example_world) =
     [Some ''/app/ffmpeg.exe'', Some ''-y'', Some ''-i'', Some ''/src/b.mp4'', Some ''-vn'',
      Some ''-acodec'', Some ''libmp3lame'', Some ''/dst/b.mp3''] \<and>
   fst (build_ffmpeg_command example_app ''/src/b.mp4'' ''/dst/b.mov'' example_world) =
     [Some ''/app/ffmpeg.exe'', Some ''-y'', Some ''-i'', Some ''/src/b.mp4'', Some ''-vcodec'',
      Some ''libx264'', Some ''-acodec'', Some ''aac'', Some ''/dst/b.mov'']"
proof -
  let ?G = "[(''intel'', [(''h264'', ''h264_qsv''), (''hevc'', ''hevc_qsv'')]),
             (''amd'', [(''h264'', ''h264_amf''), (''hevc'', ''hevc_amf'')])]"
  let ?out = "''V..... H264_QSV  V..... hevc_amf''"
  have low: "lower ?out = ''v..... h264_qsv  v..... hevc_amf''"
    by (simp add: lower_def char_lower_def)
  have c: "\<not> contains (lower ?out) ''h264_nvenc''" "\<not> contains (lower ?out) ''hevc_nvenc''"
    "contains (lower ?out) ''h264_qsv''" "contains (lower ?out) ''hevc_amf''"
    "\<not> contains (lower ?out) ''hevc_qsv''" "\<not> contains (lower ?out) ''h264_amf''"
    unfolding low by simp_all
  have probe: "get_supported_encoders (Exited 0 ?out) = Inr ?G"
    using c by (simp add: get_supported_encoders_def Let_def)
  have app: "output_format (example_app\<lparr>gpu_encoders := ?G\<rparr>) \<noteq> ''mp3''"
    "gpu_encoders (example_app\<lparr>gpu_encoders := ?G\<rparr>) = ?G"
    "output_format (example_app\<lparr>output_format := ''mp3'', audio_codec := []\<rparr>) = ''mp3''"
    "audio_codec (example_app\<lparr>output_format := ''mp3'', audio_codec := []\<rparr>) = []"
    "output_format example_app \<noteq> ''mp3''" "gpu_encoders example_app = []"
    "video_codec example_app = Some ''libx264''" "audio_codec example_app = ''aac''"
    "resource_path example_app ''ffmpeg.exe'' = ''/app/ffmpeg.exe''"
    by (simp_all add: example_app_def resource_path_def join_def endswith_def)
  have rp: "resource_path (example_app\<lparr>gpu_encoders := ?G\<rparr>) ''ffmpeg.exe'' = ''/app/ffmpeg.exe''"
    "resource_path (example_app\<lparr>output_format := ''mp3'', audio_codec := []\<rparr>) ''ffmpeg.exe'' =
       ''/app/ffmpeg.exe''"
    "audio_codec (example_app\<lparr>gpu_encoders := ?G\<rparr>) = ''aac''"
    by (simp_all add: example_app_def resource_path_def join_def endswith_def)
  from command_rules [where a = "example_app\<lparr>gpu_encoders := ?G\<rparr>" and out = ?out
      and i = "''/src/b.mp4''" and d = "''/dst/b.mov''" and w = example_world] probe app(1,2) c rp
  have "fst (build_ffmpeg_command (example_app\<lparr>gpu_encoders := ?G\<rparr>)
      ''/src/b.mp4'' ''/dst/b.mov'' example_world) =
     [Some ''/app/ffmpeg.exe'', Some ''-y'', Some ''-i'', Some ''/src/b.mp4'', Some ''-vcodec'',
      Some ''h264_qsv'', Some ''-acodec'', Some ''aac'', Some ''/dst/b.mov'']"
    by simp
  moreover
  from command_rules [where a = "example_app\<lparr>output_format := ''mp3'', audio_codec := []\<rparr>"
      and i = "''/src/b.mp4''" and d = "''/dst/b.mp3''" and w = example_world] app(3,4) rp
  have "fst (build_ffmpeg_command (example_app\<lparr>output_format := ''mp3'', audio_codec := []\<rparr>)
      ''/src/b.mp4'' ''/dst/b.mp3'' example_world) =
     [Some ''/app/ffmpeg.exe'', Some ''-y'', Some ''-i'', Some ''/src/b.mp4'', Some ''-vn'',
      Some ''-acodec'', Some ''libmp3lame'', Some ''/dst/b.mp3'']"
    by simp
  moreover
  from command_rules [where a = example_app
      and i = "''/src/b.mp4''" and d = "''/dst/b.mov''" and w = example_world] app(5-9)
  have "fst (build_ffmpeg_command example_app ''/src/b.mp4'' ''/dst/b.mov'' example_world) =
     [Some ''/app/ffmpeg.exe'', Some ''-y'', Some ''-i'', Some ''/src/b.mp4'', Some ''-vcodec'',
      Some ''libx264'', Some ''-acodec'', Some ''aac'', Some ''/dst/b.mov'']"
    by simp
  ultimately show ?thesis by blast
qed

subsection \<open>Backup and immediate deletion\<close>

text \<open>
  Claim C8, as the code has it. Settings that pass \<^verbatim>\<open>validate_settings\<close> are loaded
  unchanged: the schema constrains each field alone, and no combination of
  \<open>use_backup\<close>, \<open>delete_after_conversion\<close> and the retention time is rejected or
  normalised. The exclusion is made in the disposal step: for every application state
  with \<open>use_backup\<close> set, whatever the deletion flag and the retention time are, the
  disposal starts no deletion timer and does one of three things: nothing, logging a
  failed move, or moving the source into the backup folder. So immediate deletion and
  backup are never both applied to the same file.
\<close>

theorem backup_excludes_deletion:
  "(validate_settings s \<longrightarrow> load_settings (Parsed s) = s) \<and>
   (use_backup a \<longrightarrow>
      timers (dispose a e p n w) = timers w \<and>
      (dispose a e p n w = w \<or>
       dispose a e p n w = log_message (ErrorMovingToBackup n) w \<or>
       (\<exists>c. files w p = Some c \<and>
            dispose a e p n w =
              log_message (MovedToBackup n)
                (w\<lparr>files := ((files w)(p := None))(join (backup_folder a) n \<mapsto> c)\<rparr>))))"
proof -
  have one: "validate_settings s \<longrightarrow> load_settings (Parsed s) = s"
    by (simp add: load_settings_def)
  have two: "use_backup a \<longrightarrow>
      timers (dispose a e p n w) = timers w \<and>
      (dispose a e p n w = w \<or>
       dispose a e p n w = log_message (ErrorMovingToBackup n) w \<or>
       (\<exists>c. files w p = Some c \<and>
            dispose a e p n w =
              log_message (MovedToBackup n)
                (w\<lparr>files := ((files w)(p := None))(join (backup_folder a) n \<mapsto> c)\<rparr>)))"
    by (auto simp: dispose_def Let_def split: option.split)
  show ?thesis
    by (intro conjI one two)
qed

theorem backup_excludes_deletion_witness:
  "load_settings (Parsed conflicting_settings) = conflicting_settings \<and>
   timers (dispose (app_of_settings [] ''/app'' conflicting_settings) example_env
      ''/src/b.mp4'' ''b.mp4'' example_world) = [] \<and>
   files (dispose (app_of_settings [] ''/app'' conflicting_settings) example_env
      ''/src/b.mp4'' ''b.mp4'' example_world) ''/bak/b.mp4'' = Some ''B''"
proof -
  let ?a = "app_of_settings [] ''/app'' conflicting_settings"
  have v: "validate_settings conflicting_settings"
    by (simp add: validate_settings_def conflicting_settings_def schema_properties_def
        schema_required_def property_ok_def)
  have a: "?a = example_app\<lparr>delete_after_conversion := True, use_backup := True\<rparr>"
    by (simp add: app_of_settings_def conflicting_settings_def example_app_def get_str_def
        get_bool_def get_int_def get_str_or_null_def entries_def)
  have u: "use_backup ?a"
    unfolding a by simp
  have f: "files (dispose ?a example_env ''/src/b.mp4'' ''b.mp4'' example_world) ''/bak/b.mp4'' =
      Some ''B''"
    unfolding a
    by (simp add: dispose_def log_message_def example_app_def example_env_def example_world_def
        join_def endswith_def)
  from backup_excludes_deletion [where s = conflicting_settings and a = ?a and e = example_env
      and p = "''/src/b.mp4''" and n = "''b.mp4''" and w = example_world] v u
  have "load_settings (Parsed conflicting_settings) = conflicting_settings \<and>
      timers (dispose ?a example_env ''/src/b.mp4'' ''b.mp4'' example_world) = timers example_world"
    by blast
  then show ?thesis
    using f by (simp add: example_world_def)
qed

text \<open>
  The claim as it is written fails: the conflicting settings pass the validation, are
  loaded as they are, leave the dialog as they entered it, and give an application
  state with all three values that runs a job through to the disposal step (which
  moves the file to the backup folder).
\<close>

theorem settings_invariant_counterexample:
  "validate_settings conflicting_settings \<and>
   load_settings (Parsed conflicting_settings) = conflicting_settings \<and>
   use_backup (app_of_settings [] ''/app'' (load_settings (Parsed conflicting_settings))) \<and>
   delete_after_conversion
     (app_of_settings [] ''/app'' (load_settings (Parsed conflicting_settings))) \<and>
   retention_time (app_of_settings [] ''/app'' (load_settings (Parsed conflicting_settings))) = 0 \<and>
   create_deletion_tab conflicting_settings =
     Inr \<lparr>delete_after_checked = True, retention_input = ''0'', use_backup_checked = True,
          use_backup_enabled = False\<rparr> \<and>
   dialog_save_settings
     (retention_time_changed ''0''
        \<lparr>delete_after_checked = True, retention_input = ''0'', use_backup_checked = True,
         use_backup_enabled = False\<rparr>) =
     Some [(''delete_after_conversion'', JBool True), (''retention_time'', JInt 0),
           (''use_backup'', JBool True)] \<and>
   fst (convert_file (app_of_settings [] ''/app'' (load_settings (Parsed conflicting_settings)))
      example_env ''/src/b.mp4'' example_world) = Success \<and>
   last (logged (snd (convert_file
      (app_of_settings [] ''/app'' (load_settings (Parsed conflicting_settings)))
      example_env ''/src/b.mp4'' example_world))) = MovedToBackup ''b.mp4''"
proof -
  have v: "validate_settings conflicting_settings"
    by (simp add: validate_settings_def conflicting_settings_def schema_properties_def
        schema_required_def property_ok_def)
  then have l: "load_settings (Parsed conflicting_settings) = conflicting_settings"
    by (simp add: load_settings_def)
  have a: "app_of_settings [] ''/app'' conflicting_settings =
      example_app\<lparr>delete_after_conversion := True, use_backup := True\<rparr>"
    by (simp add: app_of_settings_def conflicting_settings_def example_app_def get_str_def
        get_bool_def get_int_def get_str_or_null_def entries_def)
  have d: "create_deletion_tab conflicting_settings =
     Inr \<lparr>delete_after_checked = True, retention_input = ''0'', use_backup_checked = True,
          use_backup_enabled = False\<rparr>"
    "dialog_save_settings
     (retention_time_changed ''0''
        \<lparr>delete_after_checked = True, retention_input = ''0'', use_backup_checked = True,
         use_backup_enabled = False\<rparr>) =
     Some [(''delete_after_conversion'', JBool True), (''retention_time'', JInt 0),
           (''use_backup'', JBool True)]"
    by (simp_all add: dialog_save_settings_def retention_time_changed_def create_deletion_tab_def
        retention_text_def conflicting_settings_def get_bool_def entries_def str_int_def
        int_of_str_def int_of_digits_def isdigit_def is_digit_def digit_val_def Let_def)
  have j: "convert_file (example_app\<lparr>delete_after_conversion := True, use_backup := True\<rparr>)
      example_env ''/src/b.mp4'' example_world =
      (fst (convert_file (example_app\<lparr>delete_after_conversion := True, use_backup := True\<rparr>)
         example_env ''/src/b.mp4'' example_world),
       snd (convert_file (example_app\<lparr>delete_after_conversion := True, use_backup := True\<rparr>)
         example_env ''/src/b.mp4'' example_world))"
    by simp
  have r: "fst (convert_file (example_app\<lparr>delete_after_conversion := True, use_backup := True\<rparr>)
      example_env ''/src/b.mp4'' example_world) = Success \<and>
    last (logged (snd (convert_file
      (example_app\<lparr>delete_after_conversion := True, use_backup := True\<rparr>)
      example_env ''/src/b.mp4'' example_world))) = MovedToBackup ''b.mp4''"
    by (simp add: convert_file_def example_app_def example_env_def example_world_def
        is_within_allowed_hours_def basename_def rfind_def join_def destination_name_def
        splitext_def exists_def transcode_job_def encode_def run_transcode_def
        probe_command_def build_ffmpeg_command_def get_gpu_encoder_def resource_path_def
        run_process_def log_message_def start_conversion_indicator_def
        end_conversion_indicator_def dispose_def endswith_def strip_def is_space_def Let_def)
  have t: "retention_time (example_app\<lparr>delete_after_conversion := True, use_backup := True\<rparr>) = 0"
    by (simp add: example_app_def)
  show ?thesis
    unfolding l a using v d r t by simp
qed

subsection \<open>The scan loop and jobs in flight\<close>

text \<open>
  Claim C9, as the code has it. The application keeps no set of paths in flight; its
  only guards are the two checks that the destination artifact exists. A scan
  appends to the queue of the executor every file that \<open>new_files\<close> yields for the
  current state of the destination folder, whatever is queued or running, and leaves
  the running jobs as they are; so a file whose job has not yet produced its
  destination artifact is submitted again by the next scan. A job that starts when
  the destination artifact exists ends as skipped and changes neither the files nor
  the timers, and starts no process.
\<close>

theorem scan_ignores_in_flight:
  "(exists (world_of d) (source_folder a) \<and> exists (world_of d) (destination_folder a) \<and>
    is_within_allowed_hours (no_time_restrictions a) (start_time a) (end_time a)
      (current_time e) = Inr True \<and>
    listdir_result e = Some listing \<and> stop_at e = None \<longrightarrow>
      queued (step a (Scan e) d) = queued d @ new_files a listing (world_of d) \<and>
      running (step a (Scan e) d) = running d) \<and>
   (is_within_allowed_hours (no_time_restrictions a) (start_time a) (end_time a)
      (current_time e) = Inr True \<and>
    exists w (join (destination_folder a) (destination_name a (basename p))) \<longrightarrow>
      fst (convert_file a e p w) = SkippedExisting \<and>
      files (snd (convert_file a e p w)) = files w \<and>
      timers (snd (convert_file a e p w)) = timers w \<and>
      calls (snd (convert_file a e p w)) = calls w)"
proof -
  have one: "exists (world_of d) (source_folder a) \<and> exists (world_of d) (destination_folder a) \<and>
    is_within_allowed_hours (no_time_restrictions a) (start_time a) (end_time a)
      (current_time e) = Inr True \<and>
    listdir_result e = Some listing \<and> stop_at e = None \<longrightarrow>
      queued (step a (Scan e) d) = queued d @ new_files a listing (world_of d) \<and>
      running (step a (Scan e) d) = running d"
  proof (intro impI, elim conjE)
    assume h: "exists (world_of d) (source_folder a)" "exists (world_of d) (destination_folder a)"
      "is_within_allowed_hours (no_time_restrictions a) (start_time a) (end_time a)
         (current_time e) = Inr True"
      "listdir_result e = Some listing" "stop_at e = None"
    then have "fst (convert_videos a e (world_of d)) = Inr (new_files a listing (world_of d))"
      by (simp add: convert_videos_def Let_def new_files_def exists_def)
    then show "queued (step a (Scan e) d) = queued d @ new_files a listing (world_of d) \<and>
      running (step a (Scan e) d) = running d"
      by (cases "convert_videos a e (world_of d)") simp
  qed
  have two: "is_within_allowed_hours (no_time_restrictions a) (start_time a) (end_time a)
      (current_time e) = Inr True \<and>
    exists w (join (destination_folder a) (destination_name a (basename p))) \<longrightarrow>
      fst (convert_file a e p w) = SkippedExisting \<and>
      files (snd (convert_file a e p w)) = files w \<and>
      timers (snd (convert_file a e p w)) = timers w \<and>
      calls (snd (convert_file a e p w)) = calls w"
  proof (intro impI, elim conjE)
    assume gate: "is_within_allowed_hours (no_time_restrictions a) (start_time a) (end_time a)
         (current_time e) = Inr True"
      and ex: "exists w (join (destination_folder a) (destination_name a (basename p)))"
    show "fst (convert_file a e p w) = SkippedExisting \<and>
      files (snd (convert_file a e p w)) = files w \<and>
      timers (snd (convert_file a e p w)) = timers w \<and>
      calls (snd (convert_file a e p w)) = calls w"
      using ex by (simp add: convert_file_open [OF gate] Let_def)
  qed
  show ?thesis
    by (intro conjI one two)
qed

lemma example_scan:
  "exists example_world (source_folder example_app)"
  "exists example_world (destination_folder example_app)"
  "is_within_allowed_hours (no_time_restrictions example_app) (start_time example_app)
     (end_time example_app) (current_time example_env) = Inr True"
  "listdir_result example_env = Some [''a.mp4'', ''b.mp4'']" "stop_at example_env = None"
  "new_files example_app [''a.mp4'', ''b.mp4''] example_world = [''/src/b.mp4'']"
  by (simp_all add: example_app_def example_env_def example_world_def exists_def
      is_within_allowed_hours_def new_files_def join_def
      endswith_def endswith_any_def supported_formats_def lower_def char_lower_def
      destination_name_def splitext_def rfind_def)

theorem scan_ignores_in_flight_witness:
  "queued (step example_app (Scan example_env)
      (example_dispatcher\<lparr>running := [''/src/b.mp4'']\<rparr>)) = [''/src/b.mp4''] \<and>
   running (step example_app (Scan example_env)
      (example_dispatcher\<lparr>running := [''/src/b.mp4'']\<rparr>)) = [''/src/b.mp4'']"
proof -
  let ?d = "example_dispatcher\<lparr>running := [''/src/b.mp4'']\<rparr>"
  have d: "world_of ?d = example_world" "queued ?d = []" "running ?d = [''/src/b.mp4'']"
    by (simp_all add: example_dispatcher_def)
  note t = scan_ignores_in_flight [where a = example_app and e = example_env and d = ?d
      and listing = "[''a.mp4'', ''b.mp4'']"]
  from t example_scan(1-5)
  have "queued (step example_app (Scan example_env) ?d) =
      queued ?d @ new_files example_app [''a.mp4'', ''b.mp4''] (world_of ?d) \<and>
    running (step example_app (Scan example_env) ?d) = running ?d"
    unfolding d(1) by blast
  then show ?thesis
    unfolding d example_scan(6) by simp
qed

text \<open>
  The claim as it is written fails: after a scan, a worker taking the job, a second
  scan and a second worker taking the job, two jobs for the same source path run at
  the same time.
\<close>

theorem in_flight_counterexample:
  "running (run_actions example_app [Scan example_env, Take, Scan example_env, Take]
      example_dispatcher) = [''/src/b.mp4'', ''/src/b.mp4''] \<and>
   \<not> distinct (in_flight (run_actions example_app
      [Scan example_env, Take, Scan example_env, Take] example_dispatcher))"
proof -
  have cv: "convert_videos example_app example_env example_world =
      (Inr [''/src/b.mp4''], example_world)"
    using example_scan
    by (simp add: convert_videos_def Let_def example_world_def)
  have s1: "step example_app (Scan example_env) example_dispatcher =
      example_dispatcher\<lparr>queued := [''/src/b.mp4'']\<rparr>"
    by (simp add: cv example_dispatcher_def)
  have s2: "step example_app Take (example_dispatcher\<lparr>queued := [''/src/b.mp4'']\<rparr>) =
      example_dispatcher\<lparr>running := [''/src/b.mp4'']\<rparr>"
    by (simp add: example_dispatcher_def max_workers_def)
  have s3: "step example_app (Scan example_env) (example_dispatcher\<lparr>running := [''/src/b.mp4'']\<rparr>) =
      example_dispatcher\<lparr>running := [''/src/b.mp4''], queued := [''/src/b.mp4'']\<rparr>"
    by (simp add: cv example_dispatcher_def)
  have s4: "step example_app Take
      (example_dispatcher\<lparr>running := [''/src/b.mp4''], queued := [''/src/b.mp4'']\<rparr>) =
      example_dispatcher\<lparr>running := [''/src/b.mp4'', ''/src/b.mp4'']\<rparr>"
    by (simp add: example_dispatcher_def max_workers_def)
  have "run_actions example_app [Scan example_env, Take, Scan example_env, Take]
      example_dispatcher = example_dispatcher\<lparr>running := [''/src/b.mp4'', ''/src/b.mp4'']\<rparr>"
    by (simp only: run_actions.simps s1 s2 s3 s4)
  then show ?thesis
    by (simp add: in_flight_def example_dispatcher_def)
qed

end
